theory Spec2Isabelle
  imports Main "HOL-Library.Sublist"
begin

section \<open>JavaScript values and errors\<close>

text \<open>
  The values the clients handle at run time come out of \<^verbatim>\<open>JSON.parse\<close> (request
  payloads, upstream response bodies) or are built from object literals. They are modelled
  by the datatype \<open>json\<close>:
  \<^item> a string is its sequence of UTF-8 bytes;
  \<^item> a number is kept as the text \<^verbatim>\<open>Number.prototype.toString\<close> gives for it
    (\<open>''0''\<close> for both zeros, \<open>''NaN''\<close>, \<open>''Infinity''\<close>, \<open>''1.5''\<close>, ...), which is all
    the code under study observes of a number (its truthiness and its serialisation);
  \<^item> an object is the list of its own properties in enumeration order.
  \<^verbatim>\<open>undefined\<close> is \<open>None\<close> of \<open>json option\<close>.
\<close>

datatype json =
    JNull
  | JBool bool
  | JNum string
  | JStr string
  | JArr "json list"
  | JObj "(string \<times> json) list"

text \<open>
  Thrown values. \<open>Error\<close> is \<^verbatim>\<open>new Error(message)\<close>; \<open>AssertionError\<close> is what
  \<^verbatim>\<open>assert(condition, message)\<close> of n8n-workflow throws when the condition is falsy;
  \<open>TypeError\<close> is the engine's error for a property read on \<^verbatim>\<open>null\<close> or
  \<^verbatim>\<open>undefined\<close> (and the rejection of \<^verbatim>\<open>fetch\<close> on a network failure);
  \<open>SyntaxError\<close> is the rejection of \<^verbatim>\<open>response.json()\<close> on a body that is not JSON.
\<close>

datatype js_error =
    Error string
  | AssertionError string
  | TypeError
  | SyntaxError

text \<open>Truthiness of a value, as \<^verbatim>\<open>||\<close>, \<^verbatim>\<open>&&\<close> and \<^verbatim>\<open>if\<close> test it.\<close>

fun js_truthy :: "json \<Rightarrow> bool" where
  "js_truthy JNull = False"
| "js_truthy (JBool b) = b"
| "js_truthy (JNum n) = (n \<noteq> ''0'' \<and> n \<noteq> ''NaN'')"
| "js_truthy (JStr s) = (s \<noteq> [])"
| "js_truthy (JArr xs) = True"
| "js_truthy (JObj kvs) = True"

text \<open>\<^verbatim>\<open>typeof v === 'object'\<close>: objects, arrays and \<^verbatim>\<open>null\<close>.\<close>

fun js_typeof_object :: "json \<Rightarrow> bool" where
  "js_typeof_object JNull = True"
| "js_typeof_object (JArr xs) = True"
| "js_typeof_object (JObj kvs) = True"
| "js_typeof_object v = False"

text \<open>
  Property keys: a name (\<^verbatim>\<open>v.name\<close>) or the index 0 (\<^verbatim>\<open>v[0]\<close>). The names the
  code reads (\<^verbatim>\<open>choices\<close>, \<^verbatim>\<open>message\<close>, \<^verbatim>\<open>content\<close>, \<^verbatim>\<open>question\<close>) are not
  properties of any built-in prototype, so a read finds an own property or nothing.
\<close>

datatype js_key = Name string | Index0

text \<open>
  \<open>js_member v k\<close>: the property \<open>k\<close> of a value other than \<^verbatim>\<open>null\<close>; \<open>None\<close> is
  \<^verbatim>\<open>undefined\<close>. An array has its elements under indices, a string its characters, an
  object the property named \<^verbatim>\<open>"0"\<close>; numbers and booleans have neither.
\<close>

fun js_member :: "json \<Rightarrow> js_key \<Rightarrow> json option" where
  "js_member (JObj kvs) (Name k) = map_of kvs k"
| "js_member (JObj kvs) Index0 = map_of kvs ''0''"
| "js_member (JArr xs) Index0 = (case xs of [] \<Rightarrow> None | x # _ \<Rightarrow> Some x)"
| "js_member (JStr s) Index0 = (case s of [] \<Rightarrow> None | c # _ \<Rightarrow> Some (JStr [c]))"
| "js_member v k = None"

text \<open>
  \<open>js_get\<close> is the plain read \<^verbatim>\<open>v.k\<close>, which throws on \<^verbatim>\<open>null\<close> and
  \<^verbatim>\<open>undefined\<close>; \<open>js_get_opt\<close> is the optional read \<^verbatim>\<open>v?.k\<close>, which gives
  \<^verbatim>\<open>undefined\<close> there.
\<close>

fun js_get :: "json option \<Rightarrow> js_key \<Rightarrow> js_error + json option" where
  "js_get None k = Inl TypeError"
| "js_get (Some JNull) k = Inl TypeError"
| "js_get (Some v) k = Inr (js_member v k)"

fun js_get_opt :: "json option \<Rightarrow> js_key \<Rightarrow> json option" where
  "js_get_opt None k = None"
| "js_get_opt (Some JNull) k = None"
| "js_get_opt (Some v) k = js_member v k"

text \<open>\<^verbatim>\<open>a || b\<close> on possibly undefined values.\<close>

fun js_or :: "json option \<Rightarrow> json \<Rightarrow> json" where
  "js_or None d = d"
| "js_or (Some v) d = (if js_truthy v then v else d)"

subsection \<open>\<^verbatim>\<open>JSON.stringify\<close>\<close>

definition hex_digit :: "nat \<Rightarrow> char" where
  "hex_digit n = ''0123456789abcdef'' ! n"

text \<open>QuoteJSONString of ECMA-262, on bytes: the quote, the backslash and the control
  characters are escaped, everything else is copied.\<close>

definition escape_char :: "char \<Rightarrow> string" where
  "escape_char c =
     (if c = CHR 0x22 then [CHR 0x5C, CHR 0x22]
      else if c = CHR 0x5C then [CHR 0x5C, CHR 0x5C]
      else if c = CHR 0x08 then [CHR 0x5C, CHR ''b'']
      else if c = CHR 0x0C then [CHR 0x5C, CHR ''f'']
      else if c = CHR 0x0A then [CHR 0x5C, CHR ''n'']
      else if c = CHR 0x0D then [CHR 0x5C, CHR ''r'']
      else if c = CHR 0x09 then [CHR 0x5C, CHR ''t'']
      else if (of_char c :: nat) < 32
        then [CHR 0x5C, CHR ''u'', CHR ''0'', CHR ''0'',
              hex_digit (of_char c div 16), hex_digit (of_char c mod 16)]
      else [c])"

definition quote :: "string \<Rightarrow> string" where
  "quote s = [CHR 0x22] @ concat (map escape_char s) @ [CHR 0x22]"

fun join :: "string \<Rightarrow> string list \<Rightarrow> string" where
  "join sep [] = []"
| "join sep [x] = x"
| "join sep (x # y # ys) = x @ sep @ join sep (y # ys)"

fun JSON_stringify :: "json \<Rightarrow> string" where
  "JSON_stringify JNull = ''null''"
| "JSON_stringify (JBool b) = (if b then ''true'' else ''false'')"
| "JSON_stringify (JNum n) =
     (if n = ''NaN'' \<or> n = ''Infinity'' \<or> n = ''-Infinity'' then ''null'' else n)"
| "JSON_stringify (JStr s) = quote s"
| "JSON_stringify (JArr xs) = ''['' @ join '','' (map JSON_stringify xs) @ '']''"
| "JSON_stringify (JObj kvs) =
     ''{'' @ join '','' (map (\<lambda>(k, v). quote k @ '':'' @ JSON_stringify v) kvs) @ ''}''"

text \<open>The decimal text of a natural number, as a template literal renders an integer.\<close>

fun string_of_nat :: "nat \<Rightarrow> string" where
  "string_of_nat n =
     (if n < 10 then [''0123456789'' ! n]
      else string_of_nat (n div 10) @ [''0123456789'' ! (n mod 10)])"

section \<open>The upstream HTTP boundary\<close>

record http_request =
  url :: string
  http_method :: string
  headers :: "(string \<times> string) list"
  body :: string

text \<open>
  What the code reads of a \<^verbatim>\<open>Response\<close>: \<open>status\<close>, \<open>statusText\<close>, the stream
  \<^verbatim>\<open>response.body\<close> (its bytes, or \<open>None\<close> for \<^verbatim>\<open>null\<close>), and the outcome of
  \<^verbatim>\<open>await response.json()\<close>.
\<close>

record http_response =
  status :: nat
  statusText :: string
  stream :: "string option"
  json_result :: "js_error + json"

text \<open>\<^verbatim>\<open>response.ok\<close> is the Fetch API's getter: the status is in the range 200 to 299.\<close>

definition ok :: "http_response \<Rightarrow> bool" where
  "ok r = (200 \<le> status r \<and> status r \<le> 299)"

text \<open>
  The world outside the process: the log of the HTTP requests sent upstream so far, and the
  upstream itself, which answers a request (given everything sent before) with a response
  or with a rejection.
\<close>

record world =
  sent :: "http_request list"
  upstream :: "http_request list \<Rightarrow> http_request \<Rightarrow> js_error + http_response"

definition fetch :: "http_request \<Rightarrow> world \<Rightarrow> (js_error + http_response) \<times> world" where
  "fetch rq w = (upstream w (sent w) rq, w\<lparr>sent := sent w @ [rq]\<rparr>)"

text \<open>The requests a call has added to the log, given the world before and after it.\<close>

definition issued :: "world \<Rightarrow> world \<Rightarrow> http_request list" where
  "issued w w' = drop (length (sent w)) (sent w')"

section \<open>The self-hosted clients\<close>

subsection \<open>Request and response shapes\<close>

text \<open>
  \<^verbatim>\<open>AiChatRequestDto\<close>, \<^verbatim>\<open>AiAskRequestDto\<close> and \<^verbatim>\<open>AiApplySuggestionRequestDto\<close>
  are declared in \<^verbatim>\<open>@n8n/api-types\<close>; the records hold the fields the clients read, optional
  where the code tests them for presence.
\<close>

record AiChatRequestDto =
  payload :: json
  chat_sessionId :: "string option"

record node_schema =
  nodeName :: string
  schema :: json

record ask_context =
  context_schema :: "node_schema list option"
  inputSchema :: "node_schema option"
  pushRef :: string
  ndvPushRef :: string

record AiAskRequestDto =
  question :: string
  payload_context :: "ask_context option"
  forNode :: string

record AiApplySuggestionRequestDto =
  request_sessionId :: string
  request_suggestionId :: string

text \<open>The \<^verbatim>\<open>{ id: string }\<close> the client methods take, and the \<^verbatim>\<open>IUser\<close> of the service.\<close>

record user_ref =
  ref_id :: string

record IUser =
  user_id :: string
  email :: string
  firstName :: string
  lastName :: string

record AiSelfHostedResponse =
  response_body :: "string option"

record AiSelfHostedApplySuggestionResponse =
  sessionId :: string
  suggestionId :: string
  applied :: bool

record AiSelfHostedAskAiResponse =
  answer :: json

record AiSelfHostedCredentials =
  credentials_apiKey :: string
  credentials_url :: string

text \<open>The private fields of both client classes (\<^verbatim>\<open>baseUrl\<close> is a constant of each).\<close>

record client_fields =
  apiKey :: string
  model :: string

text \<open>An asynchronous method: it runs in a world and returns a value or throws.\<close>

type_synonym 'a async = "world \<Rightarrow> (js_error + 'a) \<times> world"

text \<open>The system message, the same literal in all four places of the source.\<close>

definition system_content :: string where
  "system_content = ''You are an AI assistant for n8n, a workflow automation platform. Help users with their workflow automation questions and provide accurate, helpful responses.''"

definition message :: "string \<Rightarrow> json \<Rightarrow> json" where
  "message role content = JObj [(''role'', JStr role), (''content'', content)]"

abbreviation newline :: string where
  "newline \<equiv> [CHR 0x0A]"

subsection \<open>\<^verbatim>\<open>OpenRouterClient\<close>\<close>

definition OpenRouterClient_baseUrl :: string where
  "OpenRouterClient_baseUrl = ''https://openrouter.ai/api/v1''"

definition OpenRouterClient_convertPayloadToMessages :: "AiChatRequestDto \<Rightarrow> json list" where
  "OpenRouterClient_convertPayloadToMessages p =
     (let messages = [message ''system'' (JStr system_content)]
      in if js_truthy (payload p) \<and> js_typeof_object (payload p)
         then
           (let userMessage =
                  js_or (js_member (payload p) (Name ''message''))
                    (js_or (js_member (payload p) (Name ''question''))
                       (JStr (JSON_stringify (payload p))))
            in messages @ [message ''user'' userMessage])
         else messages)"

definition OpenRouterClient_buildAskAiPrompt :: "AiAskRequestDto \<Rightarrow> string" where
  "OpenRouterClient_buildAskAiPrompt p =
     (let prompt = ''Question: '' @ question p @ newline @ newline;
          prompt =
            (case payload_context p of
               None \<Rightarrow> prompt
             | Some ctx \<Rightarrow>
                 (let prompt = prompt @ ''Context:'' @ newline;
                      prompt =
                        (case context_schema ctx of
                           None \<Rightarrow> prompt
                         | Some nodes \<Rightarrow>
                             foldl (\<lambda>prompt node.
                                      prompt @ ''- '' @ nodeName node @ '': ''
                                        @ JSON_stringify (schema node) @ newline)
                               (prompt @ ''Available nodes and their schemas:'' @ newline)
                               nodes)
                  in (case inputSchema ctx of
                        None \<Rightarrow> prompt
                      | Some i \<Rightarrow>
                          prompt @ ''Input schema for '' @ nodeName i @ '': ''
                            @ JSON_stringify (schema i) @ newline)));
          prompt = prompt @ newline @ ''For node: '' @ forNode p @ newline @ newline
      in prompt @ ''Please provide a helpful answer for this n8n workflow automation question.'')"

definition OpenRouterClient_chat ::
  "client_fields \<Rightarrow> AiChatRequestDto \<Rightarrow> user_ref \<Rightarrow> AiSelfHostedResponse async" where
  "OpenRouterClient_chat this p user w =
     (case fetch
             \<lparr>url = OpenRouterClient_baseUrl @ ''/chat/completions'',
              http_method = ''POST'',
              headers =
                [(''Content-Type'', ''application/json''),
                 (''Authorization'', ''Bearer '' @ apiKey this),
                 (''HTTP-Referer'', ''https://n8n.io''),
                 (''X-Title'', ''n8n AI Assistant'')],
              body =
                JSON_stringify
                  (JObj [(''model'', JStr (model this)),
                         (''messages'', JArr (OpenRouterClient_convertPayloadToMessages p)),
                         (''stream'', JBool True)])\<rparr> w of
        (Inl e, w') \<Rightarrow> (Inl e, w')
      | (Inr response, w') \<Rightarrow>
          if \<not> ok response
          then (Inl (Error (''OpenRouter API error: '' @ string_of_nat (status response)
                              @ '' '' @ statusText response)), w')
          else (Inr \<lparr>response_body = stream response\<rparr>, w'))"

definition OpenRouterClient_applySuggestion ::
  "client_fields \<Rightarrow> AiApplySuggestionRequestDto \<Rightarrow> user_ref
     \<Rightarrow> AiSelfHostedApplySuggestionResponse async" where
  "OpenRouterClient_applySuggestion this p user w =
     (Inr \<lparr>sessionId = request_sessionId p,
           suggestionId = request_suggestionId p,
           applied = True\<rparr>, w)"

definition OpenRouterClient_askAi ::
  "client_fields \<Rightarrow> AiAskRequestDto \<Rightarrow> user_ref \<Rightarrow> AiSelfHostedAskAiResponse async" where
  "OpenRouterClient_askAi this p user w =
     (let prompt = OpenRouterClient_buildAskAiPrompt p
      in case fetch
                \<lparr>url = OpenRouterClient_baseUrl @ ''/chat/completions'',
                 http_method = ''POST'',
                 headers =
                   [(''Content-Type'', ''application/json''),
                    (''Authorization'', ''Bearer '' @ apiKey this),
                    (''HTTP-Referer'', ''https://n8n.io''),
                    (''X-Title'', ''n8n AI Assistant'')],
                 body =
                   JSON_stringify
                     (JObj [(''model'', JStr (model this)),
                            (''messages'',
                               JArr [message ''system'' (JStr system_content),
                                     message ''user'' (JStr prompt)]),
                            (''stream'', JBool False)])\<rparr> w of
           (Inl e, w') \<Rightarrow> (Inl e, w')
         | (Inr response, w') \<Rightarrow>
             if \<not> ok response
             then (Inl (Error (''OpenRouter API error: '' @ string_of_nat (status response)
                                 @ '' '' @ statusText response)), w')
             else
               (case json_result response of
                  Inl e \<Rightarrow> (Inl e, w')
                | Inr data \<Rightarrow>
                    (case js_get (Some data) (Name ''choices'') of
                       Inl e \<Rightarrow> (Inl e, w')
                     | Inr choices \<Rightarrow>
                         (case js_get choices Index0 of
                            Inl e \<Rightarrow> (Inl e, w')
                          | Inr choice \<Rightarrow>
                              (Inr \<lparr>answer =
                                      js_or (js_get_opt (js_get_opt choice (Name ''message''))
                                               (Name ''content''))
                                        (JStr ''No response generated'')\<rparr>, w')))))"

definition OpenRouterClient_generateAiCreditsCredentials ::
  "client_fields \<Rightarrow> IUser \<Rightarrow> AiSelfHostedCredentials async" where
  "OpenRouterClient_generateAiCreditsCredentials this user w =
     (Inr \<lparr>credentials_apiKey = apiKey this, credentials_url = OpenRouterClient_baseUrl\<rparr>, w)"

subsection \<open>\<^verbatim>\<open>OpenAIClient\<close>\<close>

definition OpenAIClient_baseUrl :: string where
  "OpenAIClient_baseUrl = ''https://api.openai.com/v1''"

definition OpenAIClient_convertPayloadToMessages :: "AiChatRequestDto \<Rightarrow> json list" where
  "OpenAIClient_convertPayloadToMessages p =
     (let messages = [message ''system'' (JStr system_content)]
      in if js_truthy (payload p) \<and> js_typeof_object (payload p)
         then
           (let userMessage =
                  js_or (js_member (payload p) (Name ''message''))
                    (js_or (js_member (payload p) (Name ''question''))
                       (JStr (JSON_stringify (payload p))))
            in messages @ [message ''user'' userMessage])
         else messages)"

definition OpenAIClient_buildAskAiPrompt :: "AiAskRequestDto \<Rightarrow> string" where
  "OpenAIClient_buildAskAiPrompt p =
     (let prompt = ''Question: '' @ question p @ newline @ newline;
          prompt =
            (case payload_context p of
               None \<Rightarrow> prompt
             | Some ctx \<Rightarrow>
                 (let prompt = prompt @ ''Context:'' @ newline;
                      prompt =
                        (case context_schema ctx of
                           None \<Rightarrow> prompt
                         | Some nodes \<Rightarrow>
                             foldl (\<lambda>prompt node.
                                      prompt @ ''- '' @ nodeName node @ '': ''
                                        @ JSON_stringify (schema node) @ newline)
                               (prompt @ ''Available nodes and their schemas:'' @ newline)
                               nodes)
                  in (case inputSchema ctx of
                        None \<Rightarrow> prompt
                      | Some i \<Rightarrow>
                          prompt @ ''Input schema for '' @ nodeName i @ '': ''
                            @ JSON_stringify (schema i) @ newline)));
          prompt = prompt @ newline @ ''For node: '' @ forNode p @ newline @ newline
      in prompt @ ''Please provide a helpful answer for this n8n workflow automation question.'')"

definition OpenAIClient_chat ::
  "client_fields \<Rightarrow> AiChatRequestDto \<Rightarrow> user_ref \<Rightarrow> AiSelfHostedResponse async" where
  "OpenAIClient_chat this p user w =
     (case fetch
             \<lparr>url = OpenAIClient_baseUrl @ ''/chat/completions'',
              http_method = ''POST'',
              headers =
                [(''Content-Type'', ''application/json''),
                 (''Authorization'', ''Bearer '' @ apiKey this)],
              body =
                JSON_stringify
                  (JObj [(''model'', JStr (model this)),
                         (''messages'', JArr (OpenAIClient_convertPayloadToMessages p)),
                         (''stream'', JBool True)])\<rparr> w of
        (Inl e, w') \<Rightarrow> (Inl e, w')
      | (Inr response, w') \<Rightarrow>
          if \<not> ok response
          then (Inl (Error (''OpenAI API error: '' @ string_of_nat (status response)
                              @ '' '' @ statusText response)), w')
          else (Inr \<lparr>response_body = stream response\<rparr>, w'))"

definition OpenAIClient_applySuggestion ::
  "client_fields \<Rightarrow> AiApplySuggestionRequestDto \<Rightarrow> user_ref
     \<Rightarrow> AiSelfHostedApplySuggestionResponse async" where
  "OpenAIClient_applySuggestion this p user w =
     (Inr \<lparr>sessionId = request_sessionId p,
           suggestionId = request_suggestionId p,
           applied = True\<rparr>, w)"

definition OpenAIClient_askAi ::
  "client_fields \<Rightarrow> AiAskRequestDto \<Rightarrow> user_ref \<Rightarrow> AiSelfHostedAskAiResponse async" where
  "OpenAIClient_askAi this p user w =
     (let prompt = OpenAIClient_buildAskAiPrompt p
      in case fetch
                \<lparr>url = OpenAIClient_baseUrl @ ''/chat/completions'',
                 http_method = ''POST'',
                 headers =
                   [(''Content-Type'', ''application/json''),
                    (''Authorization'', ''Bearer '' @ apiKey this)],
                 body =
                   JSON_stringify
                     (JObj [(''model'', JStr (model this)),
                            (''messages'',
                               JArr [message ''system'' (JStr system_content),
                                     message ''user'' (JStr prompt)]),
                            (''stream'', JBool False)])\<rparr> w of
           (Inl e, w') \<Rightarrow> (Inl e, w')
         | (Inr response, w') \<Rightarrow>
             if \<not> ok response
             then (Inl (Error (''OpenAI API error: '' @ string_of_nat (status response)
                                 @ '' '' @ statusText response)), w')
             else
               (case json_result response of
                  Inl e \<Rightarrow> (Inl e, w')
                | Inr data \<Rightarrow>
                    (case js_get (Some data) (Name ''choices'') of
                       Inl e \<Rightarrow> (Inl e, w')
                     | Inr choices \<Rightarrow>
                         (case js_get choices Index0 of
                            Inl e \<Rightarrow> (Inl e, w')
                          | Inr choice \<Rightarrow>
                              (Inr \<lparr>answer =
                                      js_or (js_get_opt (js_get_opt choice (Name ''message''))
                                               (Name ''content''))
                                        (JStr ''No response generated'')\<rparr>, w')))))"

definition OpenAIClient_generateAiCreditsCredentials ::
  "client_fields \<Rightarrow> IUser \<Rightarrow> AiSelfHostedCredentials async" where
  "OpenAIClient_generateAiCreditsCredentials this user w =
     (Inr \<lparr>credentials_apiKey = apiKey this, credentials_url = OpenAIClient_baseUrl\<rparr>, w)"

subsection \<open>The interface \<^verbatim>\<open>AiSelfHostedClient\<close>\<close>

text \<open>An object of the interface is an instance of one of the two classes; a method call
  dispatches on the class.\<close>

datatype AiSelfHostedClient =
    OpenRouterClient client_fields
  | OpenAIClient client_fields

fun chat ::
  "AiSelfHostedClient \<Rightarrow> AiChatRequestDto \<Rightarrow> user_ref \<Rightarrow> AiSelfHostedResponse async" where
  "chat (OpenRouterClient this) = OpenRouterClient_chat this"
| "chat (OpenAIClient this) = OpenAIClient_chat this"

fun applySuggestion ::
  "AiSelfHostedClient \<Rightarrow> AiApplySuggestionRequestDto \<Rightarrow> user_ref
     \<Rightarrow> AiSelfHostedApplySuggestionResponse async" where
  "applySuggestion (OpenRouterClient this) = OpenRouterClient_applySuggestion this"
| "applySuggestion (OpenAIClient this) = OpenAIClient_applySuggestion this"

fun askAi ::
  "AiSelfHostedClient \<Rightarrow> AiAskRequestDto \<Rightarrow> user_ref \<Rightarrow> AiSelfHostedAskAiResponse async" where
  "askAi (OpenRouterClient this) = OpenRouterClient_askAi this"
| "askAi (OpenAIClient this) = OpenAIClient_askAi this"

fun generateAiCreditsCredentials ::
  "AiSelfHostedClient \<Rightarrow> IUser \<Rightarrow> AiSelfHostedCredentials async" where
  "generateAiCreditsCredentials (OpenRouterClient this) =
     OpenRouterClient_generateAiCreditsCredentials this"
| "generateAiCreditsCredentials (OpenAIClient this) =
     OpenAIClient_generateAiCreditsCredentials this"

text \<open>The fields of a client object, and the constant \<^verbatim>\<open>baseUrl\<close> of its class.\<close>

fun fields_of :: "AiSelfHostedClient \<Rightarrow> client_fields" where
  "fields_of (OpenRouterClient this) = this"
| "fields_of (OpenAIClient this) = this"

fun baseUrl :: "AiSelfHostedClient \<Rightarrow> string" where
  "baseUrl (OpenRouterClient this) = OpenRouterClient_baseUrl"
| "baseUrl (OpenAIClient this) = OpenAIClient_baseUrl"

section \<open>The provider-selection service\<close>

text \<open>\<^verbatim>\<open>AiAssistantConfig\<close>, with the defaults of its declaration.\<close>

record AiAssistantConfig =
  config_baseUrl :: string
  openRouterApiKey :: string
  openAiApiKey :: string
  openRouterModel :: string
  openAiModel :: string
  selfHostedEnabled :: bool

definition AiAssistantConfig_default :: AiAssistantConfig where
  "AiAssistantConfig_default =
     \<lparr>config_baseUrl = [],
      openRouterApiKey = [],
      openAiApiKey = [],
      openRouterModel = ''meta-llama/llama-3.1-8b-instruct:free'',
      openAiModel = ''gpt-4o-mini'',
      selfHostedEnabled = False\<rparr>"

text \<open>The part of \<^verbatim>\<open>GlobalConfig\<close> the service reads.\<close>

record GlobalConfig =
  aiAssistant :: AiAssistantConfig
  logging_level :: string

text \<open>
  The licensing subsystem is outside the repository's sources. \<open>License\<close> holds what its
  three methods answer when the service calls them; \<^verbatim>\<open>loadCertStr\<close> is asynchronous and
  may reject.
\<close>

record License =
  isAiAssistantEnabled :: bool
  loadCertStr :: "js_error + string"
  getConsumerId :: string

text \<open>What the injected services and the imported constant give at the time of a call.\<close>

record deps =
  licenseService :: License
  globalConfig :: GlobalConfig
  N8N_VERSION :: string

text \<open>
  The licensed client comes from the package \<^verbatim>\<open>@n8n_io/ai-assistant-sdk\<close>. An object of
  the class is the options record its constructor was given; the behaviour of its four
  methods is a parameter \<open>sdk\<close>, with results of an unknown type \<open>'r\<close>.
\<close>

record AiAssistantClient =
  licenseCert :: string
  consumerId :: string
  n8nVersion :: string
  client_baseUrl :: string
  logLevel :: string

record 'r sdk =
  sdk_chat :: "AiAssistantClient \<Rightarrow> AiChatRequestDto \<Rightarrow> user_ref \<Rightarrow> 'r async"
  sdk_applySuggestion ::
    "AiAssistantClient \<Rightarrow> AiApplySuggestionRequestDto \<Rightarrow> user_ref \<Rightarrow> 'r async"
  sdk_askAi :: "AiAssistantClient \<Rightarrow> AiAskRequestDto \<Rightarrow> user_ref \<Rightarrow> 'r async"
  sdk_generateAiCreditsCredentials :: "AiAssistantClient \<Rightarrow> IUser \<Rightarrow> 'r async"

text \<open>The mutable fields of \<^verbatim>\<open>AiService\<close>, and their values after construction.\<close>

record AiService =
  client :: "AiAssistantClient option"
  selfHostedClient :: "AiSelfHostedClient option"
  isUsingLicensedClient :: bool

definition AiService_new :: AiService where
  "AiService_new = \<lparr>client = None, selfHostedClient = None, isUsingLicensedClient = False\<rparr>"

definition init :: "deps \<Rightarrow> AiService \<Rightarrow> (js_error + unit) \<times> AiService" where
  "init d this =
     (let aiAssistantEnabled = isAiAssistantEnabled (licenseService d);
          selfHostedEnabled = selfHostedEnabled (aiAssistant (globalConfig d));
          openRouterKey = openRouterApiKey (aiAssistant (globalConfig d));
          openAiKey = openAiApiKey (aiAssistant (globalConfig d))
      in if aiAssistantEnabled
         then
           (case loadCertStr (licenseService d) of
              Inl e \<Rightarrow> (Inl e, this)
            | Inr cert \<Rightarrow>
                (Inr (),
                 this\<lparr>client :=
                        Some \<lparr>licenseCert = cert,
                              consumerId = getConsumerId (licenseService d),
                              n8nVersion = N8N_VERSION d,
                              client_baseUrl = config_baseUrl (aiAssistant (globalConfig d)),
                              logLevel = logging_level (globalConfig d)\<rparr>,
                      isUsingLicensedClient := True\<rparr>))
         else if selfHostedEnabled \<and> (openRouterKey \<noteq> [] \<or> openAiKey \<noteq> [])
         then
           (let this =
                  (if openRouterKey \<noteq> []
                   then this\<lparr>selfHostedClient :=
                               Some (OpenRouterClient
                                       \<lparr>apiKey = openRouterKey,
                                        model = openRouterModel (aiAssistant (globalConfig d))\<rparr>)\<rparr>
                   else if openAiKey \<noteq> []
                   then this\<lparr>selfHostedClient :=
                               Some (OpenAIClient
                                       \<lparr>apiKey = openAiKey,
                                        model = openAiModel (aiAssistant (globalConfig d))\<rparr>)\<rparr>
                   else this)
            in (Inr (), this\<lparr>isUsingLicensedClient := False\<rparr>))
         else (Inr (), this))"

text \<open>What a service method returns: the licensed client's result or the self-hosted one's.\<close>

datatype ('l, 's) reply = Licensed 'l | SelfHosted 's

type_synonym ('l, 's) service_result = "(js_error + ('l, 's) reply) \<times> AiService \<times> world"

text \<open>The first statement of every method: initialise when no client is set.\<close>

definition ensure_init :: "deps \<Rightarrow> AiService \<Rightarrow> (js_error + unit) \<times> AiService" where
  "ensure_init d this =
     (if client this = None \<and> selfHostedClient this = None then init d this else (Inr (), this))"

definition AiService_chat ::
  "'r sdk \<Rightarrow> deps \<Rightarrow> AiChatRequestDto \<Rightarrow> IUser \<Rightarrow> AiService \<Rightarrow> world
     \<Rightarrow> ('r, AiSelfHostedResponse) service_result" where
  "AiService_chat sdk d p user this w =
     (case ensure_init d this of
        (Inl e, this) \<Rightarrow> (Inl e, this, w)
      | (Inr _, this) \<Rightarrow>
          if isUsingLicensedClient this
          then
            (case client this of
               None \<Rightarrow> (Inl (AssertionError ''Licensed assistant client not setup''), this, w)
             | Some c \<Rightarrow>
                 (case sdk_chat sdk c p \<lparr>ref_id = user_id user\<rparr> w of
                    (r, w') \<Rightarrow> (map_sum (\<lambda>e. e) Licensed r, this, w')))
          else
            (case selfHostedClient this of
               None \<Rightarrow> (Inl (AssertionError ''Self-hosted assistant client not setup''), this, w)
             | Some c \<Rightarrow>
                 (case chat c p \<lparr>ref_id = user_id user\<rparr> w of
                    (r, w') \<Rightarrow> (map_sum (\<lambda>e. e) SelfHosted r, this, w'))))"

definition AiService_applySuggestion ::
  "'r sdk \<Rightarrow> deps \<Rightarrow> AiApplySuggestionRequestDto \<Rightarrow> IUser \<Rightarrow> AiService \<Rightarrow> world
     \<Rightarrow> ('r, AiSelfHostedApplySuggestionResponse) service_result" where
  "AiService_applySuggestion sdk d p user this w =
     (case ensure_init d this of
        (Inl e, this) \<Rightarrow> (Inl e, this, w)
      | (Inr _, this) \<Rightarrow>
          if isUsingLicensedClient this
          then
            (case client this of
               None \<Rightarrow> (Inl (AssertionError ''Licensed assistant client not setup''), this, w)
             | Some c \<Rightarrow>
                 (case sdk_applySuggestion sdk c p \<lparr>ref_id = user_id user\<rparr> w of
                    (r, w') \<Rightarrow> (map_sum (\<lambda>e. e) Licensed r, this, w')))
          else
            (case selfHostedClient this of
               None \<Rightarrow> (Inl (AssertionError ''Self-hosted assistant client not setup''), this, w)
             | Some c \<Rightarrow>
                 (case applySuggestion c p \<lparr>ref_id = user_id user\<rparr> w of
                    (r, w') \<Rightarrow> (map_sum (\<lambda>e. e) SelfHosted r, this, w'))))"

definition AiService_askAi ::
  "'r sdk \<Rightarrow> deps \<Rightarrow> AiAskRequestDto \<Rightarrow> IUser \<Rightarrow> AiService \<Rightarrow> world
     \<Rightarrow> ('r, AiSelfHostedAskAiResponse) service_result" where
  "AiService_askAi sdk d p user this w =
     (case ensure_init d this of
        (Inl e, this) \<Rightarrow> (Inl e, this, w)
      | (Inr _, this) \<Rightarrow>
          if isUsingLicensedClient this
          then
            (case client this of
               None \<Rightarrow> (Inl (AssertionError ''Licensed assistant client not setup''), this, w)
             | Some c \<Rightarrow>
                 (case sdk_askAi sdk c p \<lparr>ref_id = user_id user\<rparr> w of
                    (r, w') \<Rightarrow> (map_sum (\<lambda>e. e) Licensed r, this, w')))
          else
            (case selfHostedClient this of
               None \<Rightarrow> (Inl (AssertionError ''Self-hosted assistant client not setup''), this, w)
             | Some c \<Rightarrow>
                 (case askAi c p \<lparr>ref_id = user_id user\<rparr> w of
                    (r, w') \<Rightarrow> (map_sum (\<lambda>e. e) SelfHosted r, this, w'))))"

definition AiService_createFreeAiCredits ::
  "'r sdk \<Rightarrow> deps \<Rightarrow> IUser \<Rightarrow> AiService \<Rightarrow> world
     \<Rightarrow> ('r, AiSelfHostedCredentials) service_result" where
  "AiService_createFreeAiCredits sdk d user this w =
     (case ensure_init d this of
        (Inl e, this) \<Rightarrow> (Inl e, this, w)
      | (Inr _, this) \<Rightarrow>
          if isUsingLicensedClient this
          then
            (case client this of
               None \<Rightarrow> (Inl (AssertionError ''Licensed assistant client not setup''), this, w)
             | Some c \<Rightarrow>
                 (case sdk_generateAiCreditsCredentials sdk c user w of
                    (r, w') \<Rightarrow> (map_sum (\<lambda>e. e) Licensed r, this, w')))
          else
            (case selfHostedClient this of
               None \<Rightarrow> (Inl (AssertionError ''Self-hosted assistant client not setup''), this, w)
             | Some c \<Rightarrow>
                 (case generateAiCreditsCredentials c user w of
                    (r, w') \<Rightarrow> (map_sum (\<lambda>e. e) SelfHosted r, this, w'))))"

section \<open>Notions used in the statements\<close>

text \<open>
  The request object each method passes to \<^verbatim>\<open>fetch\<close>, named so that statements can refer to
  it; the lemmas \<open>chat_unfold\<close> and \<open>askAi_unfold\<close> below show that these are the requests
  of the methods as defined above.
\<close>

fun chat_request :: "AiSelfHostedClient \<Rightarrow> AiChatRequestDto \<Rightarrow> http_request" where
  "chat_request (OpenRouterClient this) p =
     \<lparr>url = OpenRouterClient_baseUrl @ ''/chat/completions'',
      http_method = ''POST'',
      headers =
        [(''Content-Type'', ''application/json''),
         (''Authorization'', ''Bearer '' @ apiKey this),
         (''HTTP-Referer'', ''https://n8n.io''),
         (''X-Title'', ''n8n AI Assistant'')],
      body =
        JSON_stringify
          (JObj [(''model'', JStr (model this)),
                 (''messages'', JArr (OpenRouterClient_convertPayloadToMessages p)),
                 (''stream'', JBool True)])\<rparr>"
| "chat_request (OpenAIClient this) p =
     \<lparr>url = OpenAIClient_baseUrl @ ''/chat/completions'',
      http_method = ''POST'',
      headers =
        [(''Content-Type'', ''application/json''),
         (''Authorization'', ''Bearer '' @ apiKey this)],
      body =
        JSON_stringify
          (JObj [(''model'', JStr (model this)),
                 (''messages'', JArr (OpenAIClient_convertPayloadToMessages p)),
                 (''stream'', JBool True)])\<rparr>"

fun askAi_request :: "AiSelfHostedClient \<Rightarrow> AiAskRequestDto \<Rightarrow> http_request" where
  "askAi_request (OpenRouterClient this) p =
     \<lparr>url = OpenRouterClient_baseUrl @ ''/chat/completions'',
      http_method = ''POST'',
      headers =
        [(''Content-Type'', ''application/json''),
         (''Authorization'', ''Bearer '' @ apiKey this),
         (''HTTP-Referer'', ''https://n8n.io''),
         (''X-Title'', ''n8n AI Assistant'')],
      body =
        JSON_stringify
          (JObj [(''model'', JStr (model this)),
                 (''messages'',
                    JArr [message ''system'' (JStr system_content),
                          message ''user'' (JStr (OpenRouterClient_buildAskAiPrompt p))]),
                 (''stream'', JBool False)])\<rparr>"
| "askAi_request (OpenAIClient this) p =
     \<lparr>url = OpenAIClient_baseUrl @ ''/chat/completions'',
      http_method = ''POST'',
      headers =
        [(''Content-Type'', ''application/json''),
         (''Authorization'', ''Bearer '' @ apiKey this)],
      body =
        JSON_stringify
          (JObj [(''model'', JStr (model this)),
                 (''messages'',
                    JArr [message ''system'' (JStr system_content),
                          message ''user'' (JStr (OpenAIClient_buildAskAiPrompt p))]),
                 (''stream'', JBool False)])\<rparr>"

text \<open>What \<^verbatim>\<open>askAi\<close> (of either class) makes of the parsed body of a successful
  response: the lines from \<^verbatim>\<open>data.choices[0]\<close> to the returned object.\<close>

definition askAi_answer :: "json \<Rightarrow> js_error + AiSelfHostedAskAiResponse" where
  "askAi_answer data =
     (case js_get (Some data) (Name ''choices'') of
        Inl e \<Rightarrow> Inl e
      | Inr choices \<Rightarrow>
          (case js_get choices Index0 of
             Inl e \<Rightarrow> Inl e
           | Inr choice \<Rightarrow>
               Inr \<lparr>answer =
                      js_or (js_get_opt (js_get_opt choice (Name ''message'')) (Name ''content''))
                        (JStr ''No response generated'')\<rparr>))"

text \<open>The name each class puts in front of its error messages.\<close>

fun provider_name :: "AiSelfHostedClient \<Rightarrow> string" where
  "provider_name (OpenRouterClient this) = ''OpenRouter''"
| "provider_name (OpenAIClient this) = ''OpenAI''"

text \<open>
  The value at a path of property keys in a JSON document; \<open>None\<close> when a step of the path
  is missing (or leads through \<^verbatim>\<open>null\<close> or a value without that property).
\<close>

fun lookup_path :: "json \<Rightarrow> js_key list \<Rightarrow> json option" where
  "lookup_path v [] = Some v"
| "lookup_path v (k # ks) =
     (case js_member v k of None \<Rightarrow> None | Some v' \<Rightarrow> lookup_path v' ks)"

definition content_path :: "js_key list" where
  "content_path = [Name ''choices'', Index0, Name ''message'', Name ''content'']"

text \<open>
  Forwarding a service call to a client: the client's method runs in the world, its outcome
  is returned (tagged with the kind of client), and the service is left as it is.
\<close>

definition forward ::
  "('a \<Rightarrow> ('l, 's) reply) \<Rightarrow> 'a async \<Rightarrow> AiService \<Rightarrow> world
     \<Rightarrow> (js_error + ('l, 's) reply) \<times> AiService \<times> world" where
  "forward tag call this w = (case call w of (r, w') \<Rightarrow> (map_sum (\<lambda>e. e) tag r, this, w'))"

section \<open>Fixtures\<close>

text \<open>The clients, payloads and responses of the repository's tests, and environments of
  the service.\<close>

definition test_openrouter :: AiSelfHostedClient where
  "test_openrouter = OpenRouterClient \<lparr>apiKey = ''test-api-key'', model = ''test-model''\<rparr>"

definition test_openai :: AiSelfHostedClient where
  "test_openai = OpenAIClient \<lparr>apiKey = ''test-openai-key'', model = ''gpt-4''\<rparr>"

definition mockUser :: IUser where
  "mockUser = \<lparr>user_id = ''user123'', email = ''test@example.com'',
               firstName = ''Test'', lastName = ''User''\<rparr>"

definition test_chat_payload :: AiChatRequestDto where
  "test_chat_payload =
     \<lparr>payload = JObj [(''message'', JStr ''Hello'')], chat_sessionId = Some ''session123''\<rparr>"

definition test_ask_payload :: AiAskRequestDto where
  "test_ask_payload =
     \<lparr>question = ''Test question'',
      payload_context =
        Some \<lparr>context_schema = Some [],
              inputSchema =
                Some \<lparr>nodeName = ''Test'',
                      schema = JObj [(''type'', JStr ''object''), (''path'', JStr ''/test''),
                                     (''value'', JStr ''test'')]\<rparr>,
              pushRef = ''push123'',
              ndvPushRef = ''ndv123''\<rparr>,
      forNode = ''Test Node''\<rparr>"

definition test_suggestion :: AiApplySuggestionRequestDto where
  "test_suggestion =
     \<lparr>request_sessionId = ''session123'', request_suggestionId = ''suggestion456''\<rparr>"

definition response_401 :: http_response where
  "response_401 =
     \<lparr>status = 401, statusText = ''Unauthorized'', stream = None,
      json_result = Inl SyntaxError\<rparr>"

text \<open>A 200 response whose first choice has the empty string as content.\<close>

definition data_empty_content :: json where
  "data_empty_content =
     JObj [(''choices'', JArr [JObj [(''message'', JObj [(''content'', JStr [])])]])]"

definition response_empty_content :: http_response where
  "response_empty_content =
     \<lparr>status = 200, statusText = ''OK'', stream = None,
      json_result = Inr data_empty_content\<rparr>"

text \<open>A 200 response whose body is the empty object.\<close>

definition response_no_choices :: http_response where
  "response_no_choices =
     \<lparr>status = 200, statusText = ''OK'', stream = None, json_result = Inr (JObj [])\<rparr>"

text \<open>A 200 response with the content of the test file.\<close>

definition data_answer :: json where
  "data_answer =
     JObj [(''choices'',
            JArr [JObj [(''message'', JObj [(''content'', JStr ''This is a test response'')])]])]"

definition response_answer :: http_response where
  "response_answer =
     \<lparr>status = 200, statusText = ''OK'', stream = None, json_result = Inr data_answer\<rparr>"

text \<open>A world in which nothing was sent yet and the upstream answers every request with
  the given response.\<close>

definition answering :: "http_response \<Rightarrow> world" where
  "answering r = \<lparr>sent = [], upstream = (\<lambda>history rq. Inr r)\<rparr>"

text \<open>Environments: nothing configured; self-hosted mode with an OpenRouter key; a license
  with the assistant enabled.\<close>

definition deps_unconfigured :: deps where
  "deps_unconfigured =
     \<lparr>licenseService =
        \<lparr>isAiAssistantEnabled = False, loadCertStr = Inr ''cert'', getConsumerId = ''consumer''\<rparr>,
      globalConfig = \<lparr>aiAssistant = AiAssistantConfig_default, logging_level = ''info''\<rparr>,
      N8N_VERSION = ''1.0.0''\<rparr>"

definition deps_self_hosted :: deps where
  "deps_self_hosted =
     deps_unconfigured
       \<lparr>globalConfig :=
          \<lparr>aiAssistant =
             AiAssistantConfig_default
               \<lparr>selfHostedEnabled := True, openRouterApiKey := ''test-api-key'',
                openAiApiKey := ''test-openai-key''\<rparr>,
           logging_level = ''info''\<rparr>\<rparr>"

definition deps_licensed :: deps where
  "deps_licensed =
     deps_unconfigured
       \<lparr>licenseService :=
          \<lparr>isAiAssistantEnabled = True, loadCertStr = Inr ''cert'',
           getConsumerId = ''consumer''\<rparr>\<rparr>"

text \<open>A licensed SDK whose methods answer with the identifier of the user they were given
  and touch nothing.\<close>

definition echo_sdk :: "string sdk" where
  "echo_sdk =
     \<lparr>sdk_chat = (\<lambda>c p user w. (Inr (ref_id user), w)),
      sdk_applySuggestion = (\<lambda>c p user w. (Inr (ref_id user), w)),
      sdk_askAi = (\<lambda>c p user w. (Inr (ref_id user), w)),
      sdk_generateAiCreditsCredentials = (\<lambda>c user w. (Inr (user_id user), w))\<rparr>"

section \<open>The methods of the self-hosted clients, unfolded\<close>

lemma chat_unfold:
  "chat c p u w =
     (case upstream w (sent w) (chat_request c p) of
        Inl e \<Rightarrow> Inl e
      | Inr response \<Rightarrow>
          if ok response then Inr \<lparr>response_body = stream response\<rparr>
          else Inl (Error (provider_name c @ '' API error: '' @ string_of_nat (status response)
                             @ '' '' @ statusText response)),
      w\<lparr>sent := sent w @ [chat_request c p]\<rparr>)"
  by (cases c)
     (simp_all add: OpenRouterClient_chat_def OpenAIClient_chat_def fetch_def
        del: JSON_stringify.simps string_of_nat.simps split: sum.split)

lemma askAi_unfold:
  "askAi c p u w =
     (case upstream w (sent w) (askAi_request c p) of
        Inl e \<Rightarrow> Inl e
      | Inr response \<Rightarrow>
          if ok response
          then (case json_result response of Inl e \<Rightarrow> Inl e | Inr data \<Rightarrow> askAi_answer data)
          else Inl (Error (provider_name c @ '' API error: '' @ string_of_nat (status response)
                             @ '' '' @ statusText response)),
      w\<lparr>sent := sent w @ [askAi_request c p]\<rparr>)"
  by (cases c)
     (simp_all add: OpenRouterClient_askAi_def OpenAIClient_askAi_def fetch_def askAi_answer_def
        del: JSON_stringify.simps string_of_nat.simps js_get.simps split: sum.split)

lemma issued_append: "sent w' = sent w @ rs \<Longrightarrow> issued w w' = rs"
  by (simp add: issued_def)

lemma chat_issued: "issued w (snd (chat c p u w)) = [chat_request c p]"
  by (rule issued_append) (simp add: chat_unfold)

lemma askAi_issued: "issued w (snd (askAi c p u w)) = [askAi_request c p]"
  by (rule issued_append) (simp add: askAi_unfold)

lemma sublist_status: "sublist s (a @ b @ s @ t)"
proof -
  have "a @ b @ s @ t = (a @ b) @ s @ t" by simp
  then show ?thesis unfolding sublist_def by blast
qed

lemma sublist_phrase: "sublist t (a @ b @ s @ c @ t)"
proof -
  have "a @ b @ s @ c @ t = (a @ b @ s @ c) @ t @ []" by simp
  then show ?thesis unfolding sublist_def by blast
qed

lemma convertPayloadToMessages_nonempty:
  "OpenRouterClient_convertPayloadToMessages p \<noteq> []"
  "OpenAIClient_convertPayloadToMessages p \<noteq> []"
  by (simp_all add: OpenRouterClient_convertPayloadToMessages_def
        OpenAIClient_convertPayloadToMessages_def Let_def)

lemma chat_request_shape:
  "\<exists>fs ms. map_of (headers (chat_request c p)) ''Authorization''
               = Some (''Bearer '' @ apiKey (fields_of c))
     \<and> body (chat_request c p) = JSON_stringify (JObj fs)
     \<and> map_of fs ''model'' = Some (JStr (model (fields_of c)))
     \<and> map_of fs ''messages'' = Some (JArr ms) \<and> ms \<noteq> []"
proof (cases c)
  case (OpenRouterClient this)
  let ?ms = "OpenRouterClient_convertPayloadToMessages p"
  let ?fs = "[(''model'', JStr (model this)), (''messages'', JArr ?ms), (''stream'', JBool True)]"
  have "body (chat_request c p) = JSON_stringify (JObj ?fs)"
    using OpenRouterClient by (simp del: JSON_stringify.simps)
  moreover have "map_of (headers (chat_request c p)) ''Authorization''
                   = Some (''Bearer '' @ apiKey (fields_of c))"
    using OpenRouterClient by (simp del: JSON_stringify.simps)
  moreover have "map_of ?fs ''model'' = Some (JStr (model (fields_of c)))"
    using OpenRouterClient by simp
  moreover have "map_of ?fs ''messages'' = Some (JArr ?ms)" by simp
  moreover have "?ms \<noteq> []" by (rule convertPayloadToMessages_nonempty)
  ultimately show ?thesis by blast
next
  case (OpenAIClient this)
  let ?ms = "OpenAIClient_convertPayloadToMessages p"
  let ?fs = "[(''model'', JStr (model this)), (''messages'', JArr ?ms), (''stream'', JBool True)]"
  have "body (chat_request c p) = JSON_stringify (JObj ?fs)"
    using OpenAIClient by (simp del: JSON_stringify.simps)
  moreover have "map_of (headers (chat_request c p)) ''Authorization''
                   = Some (''Bearer '' @ apiKey (fields_of c))"
    using OpenAIClient by (simp del: JSON_stringify.simps)
  moreover have "map_of ?fs ''model'' = Some (JStr (model (fields_of c)))"
    using OpenAIClient by simp
  moreover have "map_of ?fs ''messages'' = Some (JArr ?ms)" by simp
  moreover have "?ms \<noteq> []" by (rule convertPayloadToMessages_nonempty)
  ultimately show ?thesis by blast
qed

lemma askAi_request_shape:
  "\<exists>fs ms. map_of (headers (askAi_request c p)) ''Authorization''
               = Some (''Bearer '' @ apiKey (fields_of c))
     \<and> body (askAi_request c p) = JSON_stringify (JObj fs)
     \<and> map_of fs ''model'' = Some (JStr (model (fields_of c)))
     \<and> map_of fs ''messages'' = Some (JArr ms) \<and> ms \<noteq> []"
proof (cases c)
  case (OpenRouterClient this)
  let ?ms = "[message ''system'' (JStr system_content),
              message ''user'' (JStr (OpenRouterClient_buildAskAiPrompt p))]"
  let ?fs = "[(''model'', JStr (model this)), (''messages'', JArr ?ms), (''stream'', JBool False)]"
  have "body (askAi_request c p) = JSON_stringify (JObj ?fs)"
    using OpenRouterClient by (simp del: JSON_stringify.simps)
  moreover have "map_of (headers (askAi_request c p)) ''Authorization''
                   = Some (''Bearer '' @ apiKey (fields_of c))"
    using OpenRouterClient by (simp del: JSON_stringify.simps)
  moreover have "map_of ?fs ''model'' = Some (JStr (model (fields_of c)))"
    using OpenRouterClient by simp
  moreover have "map_of ?fs ''messages'' = Some (JArr ?ms)" by simp
  moreover have "?ms \<noteq> []" by simp
  ultimately show ?thesis by blast
next
  case (OpenAIClient this)
  let ?ms = "[message ''system'' (JStr system_content),
              message ''user'' (JStr (OpenAIClient_buildAskAiPrompt p))]"
  let ?fs = "[(''model'', JStr (model this)), (''messages'', JArr ?ms), (''stream'', JBool False)]"
  have "body (askAi_request c p) = JSON_stringify (JObj ?fs)"
    using OpenAIClient by (simp del: JSON_stringify.simps)
  moreover have "map_of (headers (askAi_request c p)) ''Authorization''
                   = Some (''Bearer '' @ apiKey (fields_of c))"
    using OpenAIClient by (simp del: JSON_stringify.simps)
  moreover have "map_of ?fs ''model'' = Some (JStr (model (fields_of c)))"
    using OpenAIClient by simp
  moreover have "map_of ?fs ''messages'' = Some (JArr ?ms)" by simp
  moreover have "?ms \<noteq> []" by simp
  ultimately show ?thesis by blast
qed
lemma js_get_opt_member:
  "js_get_opt x k = (case x of None \<Rightarrow> None | Some v \<Rightarrow> js_member v k)"
  by (cases x; cases "the x") auto

lemma js_get_member:
  "v \<noteq> JNull \<Longrightarrow> js_get (Some v) k = Inr (js_member v k)"
  by (cases v) auto

lemma js_member_not_null: "js_member v k = Some x \<Longrightarrow> v \<noteq> JNull"
  by auto

lemma askAi_answer_lookup:
  assumes "lookup_path data [Name ''choices''] = Some choices" and "choices \<noteq> JNull"
  shows "askAi_answer data =
           Inr \<lparr>answer = js_or (lookup_path data content_path) (JStr ''No response generated'')\<rparr>"
proof -
  from assms(1) have m: "js_member data (Name ''choices'') = Some choices"
    by (simp split: option.splits)
  then have "js_get (Some data) (Name ''choices'') = Inr (Some choices)"
    using js_member_not_null [OF m] by (simp add: js_get_member)
  moreover have "js_get (Some choices) Index0 = Inr (js_member choices Index0)"
    using assms(2) by (rule js_get_member)
  moreover have "lookup_path data content_path =
      js_get_opt (js_get_opt (js_member choices Index0) (Name ''message'')) (Name ''content'')"
    using m by (simp add: content_path_def js_get_opt_member split: option.splits)
  ultimately show ?thesis
    by (simp add: askAi_answer_def del: js_get.simps)
qed

section \<open>Properties of the self-hosted clients\<close>

text \<open>
  C2. For every \<^verbatim>\<open>chat\<close> or \<^verbatim>\<open>askAi\<close> call on either self-hosted client: if the upstream
  answers the request of the call with a response whose status is outside 200 to 299, the call
  throws an \<^verbatim>\<open>Error\<close> whose message contains the decimal status code and the reason phrase,
  and the call has issued that one request and no other (nothing is retried).
\<close>

theorem non_2xx_is_reported:
  assumes "status response < 200 \<or> 299 < status response"
  shows "(upstream w (sent w) (chat_request c p) = Inr response \<longrightarrow>
            issued w (snd (chat c p u w)) = [chat_request c p] \<and>
            (\<exists>msg. fst (chat c p u w) = Inl (Error msg)
                 \<and> sublist (string_of_nat (status response)) msg
                 \<and> sublist (statusText response) msg))
       \<and> (upstream w (sent w) (askAi_request c q) = Inr response \<longrightarrow>
            issued w (snd (askAi c q u w)) = [askAi_request c q] \<and>
            (\<exists>msg. fst (askAi c q u w) = Inl (Error msg)
                 \<and> sublist (string_of_nat (status response)) msg
                 \<and> sublist (statusText response) msg))"
proof -
  from assms have nok: "\<not> ok response" by (auto simp: ok_def)
  let ?msg = "provider_name c @ '' API error: '' @ string_of_nat (status response)
                @ '' '' @ statusText response"
  have subs: "sublist (string_of_nat (status response)) ?msg" "sublist (statusText response) ?msg"
    by (rule sublist_status, rule sublist_phrase)
  have "fst (chat c p u w) = Inl (Error ?msg)"
    if "upstream w (sent w) (chat_request c p) = Inr response"
    using that nok by (simp add: chat_unfold del: string_of_nat.simps)
  moreover have "fst (askAi c q u w) = Inl (Error ?msg)"
    if "upstream w (sent w) (askAi_request c q) = Inr response"
    using that nok by (simp add: askAi_unfold del: string_of_nat.simps)
  ultimately show ?thesis
    using subs chat_issued askAi_issued by blast
qed

theorem non_2xx_is_reported_witness:
  "(status response_401 < 200 \<or> 299 < status response_401)
   \<and> upstream (answering response_401) (sent (answering response_401))
        (chat_request test_openrouter test_chat_payload) = Inr response_401
   \<and> upstream (answering response_401) (sent (answering response_401))
        (askAi_request test_openai test_ask_payload) = Inr response_401
   \<and> (\<exists>msg. fst (chat test_openrouter test_chat_payload \<lparr>ref_id = ''user123''\<rparr>
                    (answering response_401)) = Inl (Error msg)
          \<and> sublist (string_of_nat 401) msg \<and> sublist ''Unauthorized'' msg)
   \<and> (\<exists>msg. fst (askAi test_openai test_ask_payload \<lparr>ref_id = ''user123''\<rparr>
                    (answering response_401)) = Inl (Error msg)
          \<and> sublist (string_of_nat 401) msg \<and> sublist ''Unauthorized'' msg)"
proof -
  have h: "status response_401 < 200 \<or> 299 < status response_401"
    by (simp add: response_401_def)
  have s: "status response_401 = 401" "statusText response_401 = ''Unauthorized''"
    by (simp_all add: response_401_def)
  have u: "upstream (answering response_401) (sent (answering response_401)) rq = Inr response_401"
    for rq by (simp add: answering_def)
  show ?thesis
    using h u
      non_2xx_is_reported [OF h, of "answering response_401" test_openrouter test_chat_payload
        "\<lparr>ref_id = ''user123''\<rparr>" test_ask_payload]
      non_2xx_is_reported [OF h, of "answering response_401" test_openai test_chat_payload
        "\<lparr>ref_id = ''user123''\<rparr>" test_ask_payload]
    unfolding s by blast
qed

text \<open>
  C3, as amended. For every \<^verbatim>\<open>askAi\<close> call on either self-hosted client that the upstream
  answers with a 2xx response whose JSON body has a \<^verbatim>\<open>choices\<close> member other than
  \<^verbatim>\<open>null\<close>: if the body has no value at \<^verbatim>\<open>choices[0].message.content\<close>, or a falsy
  one (\<^verbatim>\<open>null\<close>, \<^verbatim>\<open>false\<close>, zero, the empty string), the result is
  \<^verbatim>\<open>{ answer: 'No response generated' }\<close>; otherwise the answer is that value.
\<close>

theorem askAi_answer_or_placeholder:
  assumes "upstream w (sent w) (askAi_request c p) = Inr response"
    and "200 \<le> status response \<and> status response \<le> 299"
    and "json_result response = Inr data"
    and "lookup_path data [Name ''choices''] = Some choices"
    and "choices \<noteq> JNull"
  shows "fst (askAi c p u w) =
           Inr \<lparr>answer =
                  (case lookup_path data content_path of
                     None \<Rightarrow> JStr ''No response generated''
                   | Some content \<Rightarrow>
                       if js_truthy content then content else JStr ''No response generated'')\<rparr>"
proof -
  have "ok response" using assms(2) by (simp add: ok_def)
  then have "fst (askAi c p u w) = askAi_answer data"
    using assms(1,3) by (simp add: askAi_unfold)
  also have "\<dots> = Inr \<lparr>answer = js_or (lookup_path data content_path)
                                   (JStr ''No response generated'')\<rparr>"
    using assms(4,5) by (rule askAi_answer_lookup)
  finally show ?thesis
    by (cases "lookup_path data content_path") simp_all
qed

theorem askAi_answer_or_placeholder_witness:
  "upstream (answering response_answer) (sent (answering response_answer))
     (askAi_request test_openrouter test_ask_payload) = Inr response_answer
   \<and> 200 \<le> status response_answer \<and> status response_answer \<le> 299
   \<and> json_result response_answer = Inr data_answer
   \<and> lookup_path data_answer [Name ''choices'']
        = Some (JArr [JObj [(''message'', JObj [(''content'', JStr ''This is a test response'')])]])
   \<and> fst (askAi test_openrouter test_ask_payload \<lparr>ref_id = ''user123''\<rparr>
             (answering response_answer))
        = Inr \<lparr>answer = JStr ''This is a test response''\<rparr>"
proof -
  let ?cs = "JArr [JObj [(''message'', JObj [(''content'', JStr ''This is a test response'')])]]"
  have 1: "upstream (answering response_answer) (sent (answering response_answer))
             (askAi_request test_openrouter test_ask_payload) = Inr response_answer"
    by (simp add: answering_def)
  have 2: "200 \<le> status response_answer \<and> status response_answer \<le> 299"
    by (simp add: response_answer_def)
  have 3: "json_result response_answer = Inr data_answer"
    by (simp add: response_answer_def)
  have 4: "lookup_path data_answer [Name ''choices''] = Some ?cs"
    by (simp add: data_answer_def)
  have 5: "?cs \<noteq> JNull" by simp
  have 6: "lookup_path data_answer content_path = Some (JStr ''This is a test response'')"
    by (simp add: data_answer_def content_path_def)
  show ?thesis
    using 1 2 3 4 askAi_answer_or_placeholder [OF 1 2 3 4 5, of "\<lparr>ref_id = ''user123''\<rparr>"]
    unfolding 6 by simp
qed

text \<open>
  C3 as stated fails: the upstream answers 200 with the empty string at
  \<^verbatim>\<open>choices[0].message.content\<close>; the field is there, and the answer is the placeholder,
  not the content.
\<close>

theorem askAi_empty_content_counterexample:
  "json_result response_empty_content = Inr data_empty_content
   \<and> status response_empty_content = 200
   \<and> lookup_path data_empty_content content_path = Some (JStr [])
   \<and> fst (askAi test_openrouter test_ask_payload \<lparr>ref_id = ''user123''\<rparr>
             (answering response_empty_content))
        = Inr \<lparr>answer = JStr ''No response generated''\<rparr>
   \<and> fst (askAi test_openrouter test_ask_payload \<lparr>ref_id = ''user123''\<rparr>
             (answering response_empty_content))
        \<noteq> Inr \<lparr>answer = JStr []\<rparr>"
  by (simp add: askAi_unfold answering_def response_empty_content_def data_empty_content_def
        content_path_def ok_def askAi_answer_def)

text \<open>A 2xx body without \<^verbatim>\<open>choices\<close> makes \<^verbatim>\<open>data.choices[0]\<close> throw.\<close>

lemma askAi_no_choices_throws:
  "fst (askAi test_openrouter test_ask_payload \<lparr>ref_id = ''user123''\<rparr>
          (answering response_no_choices)) = Inl TypeError"
  by (simp add: askAi_unfold answering_def response_no_choices_def ok_def askAi_answer_def)

text \<open>
  C4. For every \<^verbatim>\<open>chat\<close> and \<^verbatim>\<open>askAi\<close> call on either self-hosted client, the one
  request the call issues has the header \<^verbatim>\<open>Authorization\<close> equal to \<^verbatim>\<open>Bearer\<close>, a space
  and the configured API key, and its body is the serialisation of a JSON object with the
  configured model under \<^verbatim>\<open>model\<close> and a non-empty list under \<^verbatim>\<open>messages\<close>.
\<close>

theorem request_carries_key_model_messages:
  "(\<exists>rq fs ms. issued w (snd (chat c p u w)) = [rq]
       \<and> map_of (headers rq) ''Authorization'' = Some (''Bearer '' @ apiKey (fields_of c))
       \<and> body rq = JSON_stringify (JObj fs)
       \<and> map_of fs ''model'' = Some (JStr (model (fields_of c)))
       \<and> map_of fs ''messages'' = Some (JArr ms) \<and> ms \<noteq> [])
   \<and> (\<exists>rq fs ms. issued w (snd (askAi c q u w)) = [rq]
       \<and> map_of (headers rq) ''Authorization'' = Some (''Bearer '' @ apiKey (fields_of c))
       \<and> body rq = JSON_stringify (JObj fs)
       \<and> map_of fs ''model'' = Some (JStr (model (fields_of c)))
       \<and> map_of fs ''messages'' = Some (JArr ms) \<and> ms \<noteq> [])"
  using chat_request_shape [of c p] askAi_request_shape [of c q]
    chat_issued [of w c p u] askAi_issued [of w c q u]
  by blast

text \<open>
  C5. For a fixed client (API key and model), two \<^verbatim>\<open>chat\<close> calls, or two \<^verbatim>\<open>askAi\<close>
  calls, with equal payloads issue equal requests (URL, method, headers and body), whoever
  the user is and whatever the world is: the request is a function of the client and the
  payload.
\<close>

theorem request_determined_by_payload:
  "issued w1 (snd (chat c p u1 w1)) = issued w2 (snd (chat c p u2 w2))
   \<and> issued w1 (snd (chat c p u1 w1)) = [chat_request c p]
   \<and> issued w1 (snd (askAi c q u1 w1)) = issued w2 (snd (askAi c q u2 w2))
   \<and> issued w1 (snd (askAi c q u1 w1)) = [askAi_request c q]"
  by (simp add: chat_issued askAi_issued)

text \<open>
  C7. Every \<^verbatim>\<open>chat\<close> and \<^verbatim>\<open>askAi\<close> call on either self-hosted client adds exactly one
  request to the log of requests sent upstream, whatever the upstream answers and whether the
  call returns or throws.
\<close>

theorem exactly_one_request:
  "(\<exists>rq. sent (snd (chat c p u w)) = sent w @ [rq])
   \<and> (\<exists>rq. sent (snd (askAi c q u w)) = sent w @ [rq])
   \<and> length (issued w (snd (chat c p u w))) = 1
   \<and> length (issued w (snd (askAi c q u w))) = 1"
proof -
  have "sent (snd (chat c p u w)) = sent w @ [chat_request c p]"
    by (simp add: chat_unfold)
  moreover have "sent (snd (askAi c q u w)) = sent w @ [askAi_request c q]"
    by (simp add: askAi_unfold)
  ultimately show ?thesis
    by (simp add: chat_issued askAi_issued)
qed

text \<open>
  C9. For every user, \<^verbatim>\<open>generateAiCreditsCredentials\<close> on a self-hosted client leaves the
  world as it is (no request is sent) and returns the configured API key, unchanged, with the
  fixed base URL of the client's provider.
\<close>

theorem credentials_are_configured_key:
  "generateAiCreditsCredentials c user w =
     (Inr \<lparr>credentials_apiKey = apiKey (fields_of c),
           credentials_url =
             (case c of OpenRouterClient _ \<Rightarrow> ''https://openrouter.ai/api/v1''
                      | OpenAIClient _ \<Rightarrow> ''https://api.openai.com/v1'')\<rparr>, w)"
  by (cases c)
     (simp_all add: OpenRouterClient_generateAiCreditsCredentials_def
        OpenAIClient_generateAiCreditsCredentials_def OpenRouterClient_baseUrl_def
        OpenAIClient_baseUrl_def)

text \<open>
  C10. For every payload, \<^verbatim>\<open>applySuggestion\<close> on either self-hosted client leaves the world
  as it is (no request is sent) and returns exactly the session and suggestion identifiers of
  the payload with \<^verbatim>\<open>applied: true\<close>.
\<close>

theorem applySuggestion_echo:
  "applySuggestion c p user w =
     (Inr \<lparr>sessionId = request_sessionId p, suggestionId = request_suggestionId p,
           applied = True\<rparr>, w)"
  by (cases c) (simp_all add: OpenRouterClient_applySuggestion_def OpenAIClient_applySuggestion_def)

section \<open>Properties of the provider-selection service\<close>

lemma init_new_cases:
  "init d AiService_new =
     (if isAiAssistantEnabled (licenseService d)
      then (case loadCertStr (licenseService d) of
              Inl e \<Rightarrow> (Inl e, AiService_new)
            | Inr cert \<Rightarrow>
                (Inr (),
                 \<lparr>client =
                    Some \<lparr>licenseCert = cert,
                          consumerId = getConsumerId (licenseService d),
                          n8nVersion = N8N_VERSION d,
                          client_baseUrl = config_baseUrl (aiAssistant (globalConfig d)),
                          logLevel = logging_level (globalConfig d)\<rparr>,
                  selfHostedClient = None, isUsingLicensedClient = True\<rparr>))
      else if selfHostedEnabled (aiAssistant (globalConfig d))
              \<and> openRouterApiKey (aiAssistant (globalConfig d)) \<noteq> []
      then (Inr (),
            \<lparr>client = None,
             selfHostedClient =
               Some (OpenRouterClient
                       \<lparr>apiKey = openRouterApiKey (aiAssistant (globalConfig d)),
                        model = openRouterModel (aiAssistant (globalConfig d))\<rparr>),
             isUsingLicensedClient = False\<rparr>)
      else if selfHostedEnabled (aiAssistant (globalConfig d))
              \<and> openAiApiKey (aiAssistant (globalConfig d)) \<noteq> []
      then (Inr (),
            \<lparr>client = None,
             selfHostedClient =
               Some (OpenAIClient
                       \<lparr>apiKey = openAiApiKey (aiAssistant (globalConfig d)),
                        model = openAiModel (aiAssistant (globalConfig d))\<rparr>),
             isUsingLicensedClient = False\<rparr>)
      else (Inr (), AiService_new))"
  by (simp add: init_def AiService_new_def Let_def split: sum.split)

text \<open>
  C1, as amended. Initialisation of a freshly constructed service selects at most one client:
  the licensed client if and only if the license reports the AI assistant enabled (and its
  certificate loads); a self-hosted client if and only if the license does not report it
  enabled, self-hosted mode is enabled and at least one API key is non-empty, and then the
  OpenRouter client whenever the OpenRouter key is non-empty, the OpenAI client only when the
  OpenRouter key is empty and the OpenAI key is not. In the remaining case no client is
  selected.
\<close>

theorem init_selects_at_most_one:
  assumes "init d AiService_new = (r, s)"
  shows
    "(let L = licenseService d; C = aiAssistant (globalConfig d) in
       (client s = None \<or> selfHostedClient s = None)
     \<and> (client s \<noteq> None \<longleftrightarrow>
          isAiAssistantEnabled L \<and> (\<exists>cert. loadCertStr L = Inr cert))
     \<and> (isUsingLicensedClient s \<longleftrightarrow> client s \<noteq> None)
     \<and> (selfHostedClient s \<noteq> None \<longleftrightarrow>
          \<not> isAiAssistantEnabled L \<and> selfHostedEnabled C
            \<and> (openRouterApiKey C \<noteq> [] \<or> openAiApiKey C \<noteq> []))
     \<and> (selfHostedClient s \<noteq> None \<and> openRouterApiKey C \<noteq> [] \<longrightarrow>
          selfHostedClient s
            = Some (OpenRouterClient \<lparr>apiKey = openRouterApiKey C, model = openRouterModel C\<rparr>))
     \<and> (selfHostedClient s \<noteq> None \<and> openRouterApiKey C = [] \<longrightarrow>
          openAiApiKey C \<noteq> [] \<and>
          selfHostedClient s
            = Some (OpenAIClient \<lparr>apiKey = openAiApiKey C, model = openAiModel C\<rparr>)))"
proof -
  have s: "s = snd (init d AiService_new)" using assms by simp
  show ?thesis
  proof (cases "isAiAssistantEnabled (licenseService d)")
    case True
    show ?thesis
    proof (cases "loadCertStr (licenseService d)")
      case (Inl e)
      with True have "s = AiService_new" unfolding s by (simp add: init_new_cases)
      with True Inl show ?thesis by (simp add: AiService_new_def Let_def)
    next
      case (Inr cert)
      with True have "client s \<noteq> None \<and> selfHostedClient s = None \<and> isUsingLicensedClient s"
        unfolding s by (simp add: init_new_cases)
      with True Inr show ?thesis by (simp add: Let_def)
    qed
  next
    case False
    show ?thesis
    proof (cases "selfHostedEnabled (aiAssistant (globalConfig d))")
      case off: False
      with False have "s = AiService_new" unfolding s by (simp add: init_new_cases)
      with False off show ?thesis by (simp add: AiService_new_def Let_def)
    next
      case on: True
      show ?thesis
      proof (cases "openRouterApiKey (aiAssistant (globalConfig d)) = []")
        case router: False
        with False on have
          "s = \<lparr>client = None,
                selfHostedClient =
                  Some (OpenRouterClient
                          \<lparr>apiKey = openRouterApiKey (aiAssistant (globalConfig d)),
                           model = openRouterModel (aiAssistant (globalConfig d))\<rparr>),
                isUsingLicensedClient = False\<rparr>"
          unfolding s by (simp add: init_new_cases)
        with False on router show ?thesis by (simp add: Let_def)
      next
        case no_router: True
        show ?thesis
        proof (cases "openAiApiKey (aiAssistant (globalConfig d)) = []")
          case True
          with False on no_router have "s = AiService_new"
            unfolding s by (simp add: init_new_cases)
          with False on no_router True show ?thesis by (simp add: AiService_new_def Let_def)
        next
          case openai: False
          with False on no_router have
            "s = \<lparr>client = None,
                  selfHostedClient =
                    Some (OpenAIClient
                            \<lparr>apiKey = openAiApiKey (aiAssistant (globalConfig d)),
                             model = openAiModel (aiAssistant (globalConfig d))\<rparr>),
                  isUsingLicensedClient = False\<rparr>"
            unfolding s by (simp add: init_new_cases)
          with False on no_router openai show ?thesis by (simp add: Let_def)
        qed
      qed
    qed
  qed
qed

theorem init_selects_at_most_one_witness:
  "init deps_self_hosted AiService_new
     = (Inr (),
        \<lparr>client = None,
         selfHostedClient =
           Some (OpenRouterClient
                   \<lparr>apiKey = ''test-api-key'',
                    model = ''meta-llama/llama-3.1-8b-instruct:free''\<rparr>),
         isUsingLicensedClient = False\<rparr>)
   \<and> selfHostedClient (snd (init deps_self_hosted AiService_new))
       = Some (OpenRouterClient
                 \<lparr>apiKey = openRouterApiKey (aiAssistant (globalConfig deps_self_hosted)),
                  model = openRouterModel (aiAssistant (globalConfig deps_self_hosted))\<rparr>)"
proof -
  let ?s = "\<lparr>client = None,
             selfHostedClient =
               Some (OpenRouterClient
                       \<lparr>apiKey = ''test-api-key'',
                        model = ''meta-llama/llama-3.1-8b-instruct:free''\<rparr>),
             isUsingLicensedClient = False\<rparr>"
  have i: "init deps_self_hosted AiService_new = (Inr (), ?s)"
    by (simp add: init_new_cases deps_self_hosted_def deps_unconfigured_def
          AiAssistantConfig_default_def)
  have k: "openRouterApiKey (aiAssistant (globalConfig deps_self_hosted)) \<noteq> []"
    by (simp add: deps_self_hosted_def deps_unconfigured_def AiAssistantConfig_default_def)
  have n: "selfHostedClient ?s \<noteq> None" by simp
  from init_selects_at_most_one [OF i] k n
  have "selfHostedClient ?s
          = Some (OpenRouterClient
                    \<lparr>apiKey = openRouterApiKey (aiAssistant (globalConfig deps_self_hosted)),
                     model = openRouterModel (aiAssistant (globalConfig deps_self_hosted))\<rparr>)"
    unfolding Let_def by blast
  with i show ?thesis by simp
qed

text \<open>
  C1 as stated fails: with the license not reporting the assistant enabled and the default
  configuration (self-hosted mode off, no keys), initialisation succeeds and selects no client.
\<close>

theorem init_unconfigured_counterexample:
  "\<not> isAiAssistantEnabled (licenseService deps_unconfigured)
   \<and> fst (init deps_unconfigured AiService_new) = Inr ()
   \<and> client (snd (init deps_unconfigured AiService_new)) = None
   \<and> selfHostedClient (snd (init deps_unconfigured AiService_new)) = None"
proof -
  have "init deps_unconfigured AiService_new = (Inr (), AiService_new)"
    by (simp add: init_new_cases deps_unconfigured_def AiAssistantConfig_default_def)
  then show ?thesis
    by (simp add: AiService_new_def deps_unconfigured_def)
qed
lemma ensure_init_selected:
  "client this \<noteq> None \<or> selfHostedClient this \<noteq> None \<Longrightarrow> ensure_init d this = (Inr (), this)"
  by (auto simp: ensure_init_def)

lemma init_fixtures:
  "init deps_unconfigured AiService_new = (Inr (), AiService_new)"
  "init deps_self_hosted AiService_new
     = (Inr (),
        \<lparr>client = None,
         selfHostedClient =
           Some (OpenRouterClient
                   \<lparr>apiKey = ''test-api-key'',
                    model = ''meta-llama/llama-3.1-8b-instruct:free''\<rparr>),
         isUsingLicensedClient = False\<rparr>)"
  "init deps_licensed AiService_new
     = (Inr (),
        \<lparr>client =
           Some \<lparr>licenseCert = ''cert'', consumerId = ''consumer'', n8nVersion = ''1.0.0'',
                 client_baseUrl = [], logLevel = ''info''\<rparr>,
         selfHostedClient = None,
         isUsingLicensedClient = True\<rparr>)"
  by (simp_all add: init_new_cases deps_self_hosted_def deps_licensed_def deps_unconfigured_def
        AiAssistantConfig_default_def)

text \<open>
  The first call on a freshly constructed service is the one that initialises it. With the
  license not reporting the assistant enabled, self-hosted mode on and an OpenRouter key, the
  call selects the OpenRouter client built from the configuration and is forwarded to it.
\<close>

lemma first_call_initialises_and_forwards:
  assumes "\<not> isAiAssistantEnabled (licenseService d)"
    and "selfHostedEnabled (aiAssistant (globalConfig d))"
    and "openRouterApiKey (aiAssistant (globalConfig d)) \<noteq> []"
  shows "AiService_chat sdk d p user AiService_new w
           = forward SelfHosted
               (chat (OpenRouterClient
                        \<lparr>apiKey = openRouterApiKey (aiAssistant (globalConfig d)),
                         model = openRouterModel (aiAssistant (globalConfig d))\<rparr>)
                  p \<lparr>ref_id = user_id user\<rparr>)
               \<lparr>client = None,
                selfHostedClient =
                  Some (OpenRouterClient
                          \<lparr>apiKey = openRouterApiKey (aiAssistant (globalConfig d)),
                           model = openRouterModel (aiAssistant (globalConfig d))\<rparr>),
                isUsingLicensedClient = False\<rparr>
               w"
proof -
  have "ensure_init d AiService_new = init d AiService_new"
    by (simp add: ensure_init_def AiService_new_def)
  also have "\<dots> =
      (Inr (),
       \<lparr>client = None,
        selfHostedClient =
          Some (OpenRouterClient
                  \<lparr>apiKey = openRouterApiKey (aiAssistant (globalConfig d)),
                   model = openRouterModel (aiAssistant (globalConfig d))\<rparr>),
        isUsingLicensedClient = False\<rparr>)"
    using assms by (simp add: init_new_cases)
  finally show ?thesis
    by (simp add: AiService_chat_def forward_def del: chat.simps)
qed

text \<open>
  C6, as amended. Every call of \<^verbatim>\<open>chat\<close>, \<^verbatim>\<open>askAi\<close>, \<^verbatim>\<open>applySuggestion\<close> and
  \<^verbatim>\<open>createFreeAiCredits\<close> of the service first runs the initialisation when neither client
  is set, and leaves the service as it is otherwise. With the service in the state this
  gives, the call is forwarded, with the payload unchanged and the user's id (for
  \<^verbatim>\<open>createFreeAiCredits\<close>: the user) unchanged, to the licensed client when the licensed
  client is the selected one, and to the self-hosted client when a self-hosted client is the
  selected one. When the licensed client is not the selected one and there is no self-hosted
  client (nothing is configured), the call fails with the assertion error
  \<^verbatim>\<open>Self-hosted assistant client not setup\<close> and nothing is forwarded. In the two remaining
  cases nothing is forwarded either: when the initialisation fails, the call fails with its
  error; when the flag says licensed and there is no licensed client, the call fails with
  \<^verbatim>\<open>Licensed assistant client not setup\<close>.
\<close>

theorem calls_are_forwarded:
  assumes "(if client this = None \<and> selfHostedClient this = None
            then init d this else (Inr (), this)) = (r, this')"
  shows
    "(r = Inr () \<and> isUsingLicensedClient this' \<and> client this' = Some lc \<longrightarrow>
        AiService_chat sdk d p user this w
          = forward Licensed (sdk_chat sdk lc p \<lparr>ref_id = user_id user\<rparr>) this' w
      \<and> AiService_askAi sdk d q user this w
          = forward Licensed (sdk_askAi sdk lc q \<lparr>ref_id = user_id user\<rparr>) this' w
      \<and> AiService_applySuggestion sdk d a user this w
          = forward Licensed (sdk_applySuggestion sdk lc a \<lparr>ref_id = user_id user\<rparr>) this' w
      \<and> AiService_createFreeAiCredits sdk d user this w
          = forward Licensed (sdk_generateAiCreditsCredentials sdk lc user) this' w)
   \<and> (r = Inr () \<and> \<not> isUsingLicensedClient this' \<and> selfHostedClient this' = Some sc \<longrightarrow>
        AiService_chat sdk d p user this w
          = forward SelfHosted (chat sc p \<lparr>ref_id = user_id user\<rparr>) this' w
      \<and> AiService_askAi sdk d q user this w
          = forward SelfHosted (askAi sc q \<lparr>ref_id = user_id user\<rparr>) this' w
      \<and> AiService_applySuggestion sdk d a user this w
          = forward SelfHosted (applySuggestion sc a \<lparr>ref_id = user_id user\<rparr>) this' w
      \<and> AiService_createFreeAiCredits sdk d user this w
          = forward SelfHosted (generateAiCreditsCredentials sc user) this' w)
   \<and> (r = Inr () \<and> \<not> isUsingLicensedClient this' \<and> selfHostedClient this' = None \<longrightarrow>
        AiService_chat sdk d p user this w
          = (Inl (AssertionError ''Self-hosted assistant client not setup''), this', w)
      \<and> AiService_askAi sdk d q user this w
          = (Inl (AssertionError ''Self-hosted assistant client not setup''), this', w)
      \<and> AiService_applySuggestion sdk d a user this w
          = (Inl (AssertionError ''Self-hosted assistant client not setup''), this', w)
      \<and> AiService_createFreeAiCredits sdk d user this w
          = (Inl (AssertionError ''Self-hosted assistant client not setup''), this', w))
   \<and> (r = Inr () \<and> isUsingLicensedClient this' \<and> client this' = None \<longrightarrow>
        AiService_chat sdk d p user this w
          = (Inl (AssertionError ''Licensed assistant client not setup''), this', w)
      \<and> AiService_askAi sdk d q user this w
          = (Inl (AssertionError ''Licensed assistant client not setup''), this', w)
      \<and> AiService_applySuggestion sdk d a user this w
          = (Inl (AssertionError ''Licensed assistant client not setup''), this', w)
      \<and> AiService_createFreeAiCredits sdk d user this w
          = (Inl (AssertionError ''Licensed assistant client not setup''), this', w))
   \<and> (r = Inl e \<longrightarrow>
        AiService_chat sdk d p user this w = (Inl e, this', w)
      \<and> AiService_askAi sdk d q user this w = (Inl e, this', w)
      \<and> AiService_applySuggestion sdk d a user this w = (Inl e, this', w)
      \<and> AiService_createFreeAiCredits sdk d user this w = (Inl e, this', w))"
proof -
  have g: "ensure_init d this = (r, this')"
    using assms by (simp add: ensure_init_def)
  note defs = AiService_chat_def AiService_askAi_def AiService_applySuggestion_def
    AiService_createFreeAiCredits_def
  have licensed:
    "r = Inr () \<and> isUsingLicensedClient this' \<and> client this' = Some lc \<longrightarrow>
     AiService_chat sdk d p user this w
       = forward Licensed (sdk_chat sdk lc p \<lparr>ref_id = user_id user\<rparr>) this' w
     \<and> AiService_askAi sdk d q user this w
       = forward Licensed (sdk_askAi sdk lc q \<lparr>ref_id = user_id user\<rparr>) this' w
     \<and> AiService_applySuggestion sdk d a user this w
       = forward Licensed (sdk_applySuggestion sdk lc a \<lparr>ref_id = user_id user\<rparr>) this' w
     \<and> AiService_createFreeAiCredits sdk d user this w
       = forward Licensed (sdk_generateAiCreditsCredentials sdk lc user) this' w"
    by (simp add: defs g forward_def)
  have self_hosted:
    "r = Inr () \<and> \<not> isUsingLicensedClient this' \<and> selfHostedClient this' = Some sc \<longrightarrow>
     AiService_chat sdk d p user this w
       = forward SelfHosted (chat sc p \<lparr>ref_id = user_id user\<rparr>) this' w
     \<and> AiService_askAi sdk d q user this w
       = forward SelfHosted (askAi sc q \<lparr>ref_id = user_id user\<rparr>) this' w
     \<and> AiService_applySuggestion sdk d a user this w
       = forward SelfHosted (applySuggestion sc a \<lparr>ref_id = user_id user\<rparr>) this' w
     \<and> AiService_createFreeAiCredits sdk d user this w
       = forward SelfHosted (generateAiCreditsCredentials sc user) this' w"
    by (simp add: defs g forward_def)
  have no_self_hosted:
    "r = Inr () \<and> \<not> isUsingLicensedClient this' \<and> selfHostedClient this' = None \<longrightarrow>
     AiService_chat sdk d p user this w
       = (Inl (AssertionError ''Self-hosted assistant client not setup''), this', w)
     \<and> AiService_askAi sdk d q user this w
       = (Inl (AssertionError ''Self-hosted assistant client not setup''), this', w)
     \<and> AiService_applySuggestion sdk d a user this w
       = (Inl (AssertionError ''Self-hosted assistant client not setup''), this', w)
     \<and> AiService_createFreeAiCredits sdk d user this w
       = (Inl (AssertionError ''Self-hosted assistant client not setup''), this', w)"
    by (simp add: defs g)
  have no_licensed:
    "r = Inr () \<and> isUsingLicensedClient this' \<and> client this' = None \<longrightarrow>
     AiService_chat sdk d p user this w
       = (Inl (AssertionError ''Licensed assistant client not setup''), this', w)
     \<and> AiService_askAi sdk d q user this w
       = (Inl (AssertionError ''Licensed assistant client not setup''), this', w)
     \<and> AiService_applySuggestion sdk d a user this w
       = (Inl (AssertionError ''Licensed assistant client not setup''), this', w)
     \<and> AiService_createFreeAiCredits sdk d user this w
       = (Inl (AssertionError ''Licensed assistant client not setup''), this', w)"
    by (simp add: defs g)
  have init_failed:
    "r = Inl e \<longrightarrow>
     AiService_chat sdk d p user this w = (Inl e, this', w)
     \<and> AiService_askAi sdk d q user this w = (Inl e, this', w)
     \<and> AiService_applySuggestion sdk d a user this w = (Inl e, this', w)
     \<and> AiService_createFreeAiCredits sdk d user this w = (Inl e, this', w)"
    by (simp add: defs g)
  show ?thesis
    by (intro conjI licensed self_hosted no_self_hosted no_licensed init_failed)
qed

theorem calls_are_forwarded_witness:
  "AiService_applySuggestion echo_sdk deps_self_hosted test_suggestion mockUser
       AiService_new (answering response_401)
     = (Inr (SelfHosted \<lparr>sessionId = ''session123'', suggestionId = ''suggestion456'',
                          applied = True\<rparr>),
        snd (init deps_self_hosted AiService_new), answering response_401)
   \<and> selfHostedClient (snd (init deps_self_hosted AiService_new))
       = Some (OpenRouterClient
                 \<lparr>apiKey = ''test-api-key'', model = ''meta-llama/llama-3.1-8b-instruct:free''\<rparr>)
   \<and> AiService_chat echo_sdk deps_unconfigured test_chat_payload mockUser
       (snd (init deps_licensed AiService_new)) (answering response_401)
     = (Inr (Licensed ''user123''), snd (init deps_licensed AiService_new),
        answering response_401)
   \<and> AiService_askAi echo_sdk deps_unconfigured test_ask_payload mockUser
       AiService_new (answering response_401)
     = (Inl (AssertionError ''Self-hosted assistant client not setup''), AiService_new,
        answering response_401)"
proof -
  let ?lc = "\<lparr>licenseCert = ''cert'', consumerId = ''consumer'', n8nVersion = ''1.0.0'',
               client_baseUrl = [], logLevel = ''info''\<rparr>"
  let ?sc = "OpenRouterClient
               \<lparr>apiKey = ''test-api-key'', model = ''meta-llama/llama-3.1-8b-instruct:free''\<rparr>"
  let ?l = "snd (init deps_licensed AiService_new)"
  let ?s = "snd (init deps_self_hosted AiService_new)"
  let ?w = "answering response_401"
  have new: "client AiService_new = None \<and> selfHostedClient AiService_new = None"
    by (simp add: AiService_new_def)
  have gs: "(if client AiService_new = None \<and> selfHostedClient AiService_new = None
             then init deps_self_hosted AiService_new else (Inr (), AiService_new))
            = (Inr (), ?s)"
    using new by (simp add: init_fixtures)
  have s: "\<not> isUsingLicensedClient ?s \<and> selfHostedClient ?s = Some ?sc"
    by (simp add: init_fixtures)
  have 1: "AiService_applySuggestion echo_sdk deps_self_hosted test_suggestion mockUser
             AiService_new ?w
           = forward SelfHosted
               (applySuggestion ?sc test_suggestion \<lparr>ref_id = user_id mockUser\<rparr>) ?s ?w"
    using s calls_are_forwarded
               [OF gs, where sc = ?sc and sdk = echo_sdk and user = mockUser and w = ?w
                  and a = test_suggestion]
    by blast
  have f1: "forward SelfHosted
              (applySuggestion ?sc test_suggestion \<lparr>ref_id = user_id mockUser\<rparr>) ?s ?w
            = (Inr (SelfHosted \<lparr>sessionId = ''session123'', suggestionId = ''suggestion456'',
                                  applied = True\<rparr>), ?s, ?w)"
    by (simp add: forward_def OpenRouterClient_applySuggestion_def test_suggestion_def)
  have l: "isUsingLicensedClient ?l \<and> client ?l = Some ?lc"
    by (simp add: init_fixtures)
  then have gl: "(if client ?l = None \<and> selfHostedClient ?l = None
                  then init deps_unconfigured ?l else (Inr (), ?l)) = (Inr (), ?l)"
    by simp
  have 2: "AiService_chat echo_sdk deps_unconfigured test_chat_payload mockUser ?l ?w
           = forward Licensed
               (sdk_chat echo_sdk ?lc test_chat_payload \<lparr>ref_id = user_id mockUser\<rparr>) ?l ?w"
    using l calls_are_forwarded
               [OF gl, where lc = ?lc and sdk = echo_sdk and p = test_chat_payload
                  and user = mockUser and w = ?w]
    by blast
  have f2: "forward Licensed
              (sdk_chat echo_sdk ?lc test_chat_payload \<lparr>ref_id = user_id mockUser\<rparr>) ?l ?w
            = (Inr (Licensed ''user123''), ?l, ?w)"
    by (simp add: forward_def echo_sdk_def mockUser_def)
  have gn: "(if client AiService_new = None \<and> selfHostedClient AiService_new = None
             then init deps_unconfigured AiService_new else (Inr (), AiService_new))
            = (Inr (), AiService_new)"
    using new by (simp add: init_fixtures)
  have n: "\<not> isUsingLicensedClient AiService_new \<and> selfHostedClient AiService_new = None"
    by (simp add: AiService_new_def)
  have 3: "AiService_askAi echo_sdk deps_unconfigured test_ask_payload mockUser AiService_new ?w
           = (Inl (AssertionError ''Self-hosted assistant client not setup''), AiService_new, ?w)"
    using n calls_are_forwarded
               [OF gn, where sdk = echo_sdk and user = mockUser and w = ?w
                  and q = test_ask_payload]
    by blast
  show ?thesis
    using 1 2 3 s unfolding f1 f2 by blast
qed

text \<open>
  C6 as stated fails: after an initialisation that selected no client (nothing configured),
  the licensed client is not the selected one, and a \<^verbatim>\<open>chat\<close> call is not forwarded to a
  self-hosted client: it fails with an assertion error and leaves the world as it was.
\<close>

theorem unconfigured_call_counterexample:
  "isUsingLicensedClient (snd (init deps_unconfigured AiService_new)) = False
   \<and> selfHostedClient (snd (init deps_unconfigured AiService_new)) = None
   \<and> AiService_chat echo_sdk deps_unconfigured test_chat_payload mockUser
        (snd (init deps_unconfigured AiService_new)) (answering response_answer)
      = (Inl (AssertionError ''Self-hosted assistant client not setup''),
         snd (init deps_unconfigured AiService_new), answering response_answer)"
proof -
  have i: "init deps_unconfigured AiService_new = (Inr (), AiService_new)"
    by (rule init_fixtures)
  have "ensure_init deps_unconfigured AiService_new = (Inr (), AiService_new)"
    by (simp add: ensure_init_def i)
  then show ?thesis
    unfolding i by (simp add: AiService_chat_def) (simp add: AiService_new_def)
qed

text \<open>
  C8. Once a client is selected, every operation of the service (\<^verbatim>\<open>chat\<close>, \<^verbatim>\<open>askAi\<close>,
  \<^verbatim>\<open>applySuggestion\<close>, \<^verbatim>\<open>createFreeAiCredits\<close>) leaves the service's fields (the
  licensed client, the self-hosted client and the flag) as they are, and the outcome of the
  operation does not depend on the license or the configuration at the time of the call: they
  are read by initialisation only.
\<close>

theorem operations_keep_selection:
  assumes "client this \<noteq> None \<or> selfHostedClient this \<noteq> None"
  shows "fst (snd (AiService_chat sdk d p user this w)) = this
       \<and> fst (snd (AiService_askAi sdk d q user this w)) = this
       \<and> fst (snd (AiService_applySuggestion sdk d a user this w)) = this
       \<and> fst (snd (AiService_createFreeAiCredits sdk d user this w)) = this
       \<and> AiService_chat sdk d p user this w = AiService_chat sdk d' p user this w
       \<and> AiService_askAi sdk d q user this w = AiService_askAi sdk d' q user this w
       \<and> AiService_applySuggestion sdk d a user this w
           = AiService_applySuggestion sdk d' a user this w
       \<and> AiService_createFreeAiCredits sdk d user this w
           = AiService_createFreeAiCredits sdk d' user this w"
proof -
  have e: "ensure_init d this = (Inr (), this)" "ensure_init d' this = (Inr (), this)"
    using assms by (simp_all add: ensure_init_selected)
  have "fst (snd (AiService_chat sdk d p user this w)) = this"
    by (simp add: AiService_chat_def e split: option.split prod.split)
  moreover have "fst (snd (AiService_askAi sdk d q user this w)) = this"
    by (simp add: AiService_askAi_def e split: option.split prod.split)
  moreover have "fst (snd (AiService_applySuggestion sdk d a user this w)) = this"
    by (simp add: AiService_applySuggestion_def e split: option.split prod.split)
  moreover have "fst (snd (AiService_createFreeAiCredits sdk d user this w)) = this"
    by (simp add: AiService_createFreeAiCredits_def e split: option.split prod.split)
  moreover have "AiService_chat sdk d p user this w = AiService_chat sdk d' p user this w"
    by (simp add: AiService_chat_def e)
  moreover have "AiService_askAi sdk d q user this w = AiService_askAi sdk d' q user this w"
    by (simp add: AiService_askAi_def e)
  moreover have "AiService_applySuggestion sdk d a user this w
                   = AiService_applySuggestion sdk d' a user this w"
    by (simp add: AiService_applySuggestion_def e)
  moreover have "AiService_createFreeAiCredits sdk d user this w
                   = AiService_createFreeAiCredits sdk d' user this w"
    by (simp add: AiService_createFreeAiCredits_def e)
  ultimately show ?thesis by blast
qed

theorem operations_keep_selection_witness:
  "selfHostedClient (snd (init deps_self_hosted AiService_new))
     = Some (OpenRouterClient
               \<lparr>apiKey = ''test-api-key'', model = ''meta-llama/llama-3.1-8b-instruct:free''\<rparr>)
   \<and> fst (snd (AiService_chat echo_sdk deps_licensed test_chat_payload mockUser
                  (snd (init deps_self_hosted AiService_new)) (answering response_401)))
       = snd (init deps_self_hosted AiService_new)
   \<and> AiService_chat echo_sdk deps_licensed test_chat_payload mockUser
        (snd (init deps_self_hosted AiService_new)) (answering response_401)
       = AiService_chat echo_sdk deps_unconfigured test_chat_payload mockUser
           (snd (init deps_self_hosted AiService_new)) (answering response_401)"
proof -
  let ?s = "snd (init deps_self_hosted AiService_new)"
  have c: "selfHostedClient ?s
             = Some (OpenRouterClient
                       \<lparr>apiKey = ''test-api-key'',
                        model = ''meta-llama/llama-3.1-8b-instruct:free''\<rparr>)"
    by (simp add: init_fixtures)
  then have h: "client ?s \<noteq> None \<or> selfHostedClient ?s \<noteq> None" by simp
  show ?thesis
    using c operations_keep_selection [OF h, of echo_sdk deps_licensed test_chat_payload mockUser
               "answering response_401" _ _ deps_unconfigured]
    by blast
qed

section \<open>The repository's tests, replayed on the model\<close>

text \<open>The cases of \<^verbatim>\<open>ai-self-hosted.service.test.ts\<close>: the request of
  \<^verbatim>\<open>should make a chat request with correct parameters\<close>, for both classes.\<close>

lemma test_chat_request_openrouter:
  \<open>chat_request test_openrouter test_chat_payload =
     \<lparr>url = ''https://openrouter.ai/api/v1/chat/completions'',
      http_method = ''POST'',
      headers =
        [(''Content-Type'', ''application/json''),
         (''Authorization'', ''Bearer test-api-key''),
         (''HTTP-Referer'', ''https://n8n.io''),
         (''X-Title'', ''n8n AI Assistant'')],
      body = ''{"model":"test-model","messages":[{"role":"system","content":"You are an AI assistant for n8n, a workflow automation platform. Help users with their workflow automation questions and provide accurate, helpful responses."},{"role":"user","content":"Hello"}],"stream":true}''\<rparr>\<close>
  by (simp add: test_openrouter_def test_chat_payload_def OpenRouterClient_baseUrl_def
        OpenRouterClient_convertPayloadToMessages_def message_def system_content_def
        quote_def escape_char_def)

lemma test_chat_request_openai:
  \<open>chat_request test_openai
       \<lparr>payload = JObj [(''message'', JStr ''Hello OpenAI'')], chat_sessionId = Some ''session123''\<rparr> =
     \<lparr>url = ''https://api.openai.com/v1/chat/completions'',
      http_method = ''POST'',
      headers =
        [(''Content-Type'', ''application/json''),
         (''Authorization'', ''Bearer test-openai-key'')],
      body = ''{"model":"gpt-4","messages":[{"role":"system","content":"You are an AI assistant for n8n, a workflow automation platform. Help users with their workflow automation questions and provide accurate, helpful responses."},{"role":"user","content":"Hello OpenAI"}],"stream":true}''\<rparr>\<close>
  by (simp add: test_openai_def OpenAIClient_baseUrl_def
        OpenAIClient_convertPayloadToMessages_def message_def system_content_def
        quote_def escape_char_def)

text \<open>\<^verbatim>\<open>should make a chat request\<close>: a 200 response gives back the stream.\<close>

lemma test_chat_returns_stream:
  "fst (chat test_openrouter test_chat_payload \<lparr>ref_id = user_id mockUser\<rparr>
          (answering \<lparr>status = 200, statusText = ''OK'', stream = Some ''data'',
                      json_result = Inl SyntaxError\<rparr>))
     = Inr \<lparr>response_body = Some ''data''\<rparr>"
  by (simp add: chat_unfold answering_def ok_def)

text \<open>\<^verbatim>\<open>should handle API errors\<close>, for both classes.\<close>

lemma test_chat_api_error_openrouter:
  "fst (chat test_openrouter test_chat_payload \<lparr>ref_id = user_id mockUser\<rparr>
          (answering response_401))
     = Inl (Error ''OpenRouter API error: 401 Unauthorized'')"
  by (simp add: chat_unfold answering_def response_401_def ok_def)
     (simp add: test_openrouter_def)

lemma test_chat_api_error_openai:
  "fst (chat test_openai test_chat_payload \<lparr>ref_id = user_id mockUser\<rparr>
          (answering \<lparr>status = 429, statusText = ''Too Many Requests'', stream = None,
                      json_result = Inl SyntaxError\<rparr>))
     = Inl (Error ''OpenAI API error: 429 Too Many Requests'')"
  by (simp add: chat_unfold answering_def ok_def) (simp add: test_openai_def)

text \<open>\<^verbatim>\<open>should make an askAi request\<close>: the prompt and the answer.\<close>

lemma test_askAi_prompt:
  \<open>OpenRouterClient_buildAskAiPrompt test_ask_payload =
     ''Question: Test question'' @ newline @ newline
     @ ''Context:'' @ newline
     @ ''Available nodes and their schemas:'' @ newline
     @ ''Input schema for Test: {"type":"object","path":"/test","value":"test"}'' @ newline
     @ newline @ ''For node: Test Node'' @ newline @ newline
     @ ''Please provide a helpful answer for this n8n workflow automation question.''\<close>
  by (simp add: test_ask_payload_def OpenRouterClient_buildAskAiPrompt_def quote_def
        escape_char_def)

lemma test_askAi_answer:
  "fst (askAi test_openrouter test_ask_payload \<lparr>ref_id = user_id mockUser\<rparr>
          (answering response_answer))
     = Inr \<lparr>answer = JStr ''This is a test response''\<rparr>"
  by (simp add: askAi_unfold answering_def response_answer_def data_answer_def ok_def
        askAi_answer_def)

text \<open>\<^verbatim>\<open>should handle missing response content\<close>: the body \<^verbatim>\<open>{ choices: [] }\<close>.\<close>

lemma test_askAi_missing_content:
  "fst (askAi test_openrouter test_ask_payload \<lparr>ref_id = user_id mockUser\<rparr>
          (answering \<lparr>status = 200, statusText = ''OK'', stream = None,
                      json_result = Inr (JObj [(''choices'', JArr [])])\<rparr>))
     = Inr \<lparr>answer = JStr ''No response generated''\<rparr>"
  by (simp add: askAi_unfold answering_def ok_def askAi_answer_def)

text \<open>\<^verbatim>\<open>applySuggestion\<close> and \<^verbatim>\<open>generateAiCreditsCredentials\<close>.\<close>

lemma test_applySuggestion:
  "fst (applySuggestion test_openrouter test_suggestion \<lparr>ref_id = user_id mockUser\<rparr> w)
     = Inr \<lparr>sessionId = ''session123'', suggestionId = ''suggestion456'', applied = True\<rparr>"
  by (simp add: test_openrouter_def test_suggestion_def OpenRouterClient_applySuggestion_def)

lemma test_generateAiCreditsCredentials:
  "fst (generateAiCreditsCredentials test_openrouter mockUser w)
     = Inr \<lparr>credentials_apiKey = ''test-api-key'',
            credentials_url = ''https://openrouter.ai/api/v1''\<rparr>"
  "fst (generateAiCreditsCredentials test_openai mockUser w)
     = Inr \<lparr>credentials_apiKey = ''test-openai-key'',
            credentials_url = ''https://api.openai.com/v1''\<rparr>"
  by (simp_all add: test_openrouter_def test_openai_def
        OpenRouterClient_generateAiCreditsCredentials_def
        OpenAIClient_generateAiCreditsCredentials_def OpenRouterClient_baseUrl_def
        OpenAIClient_baseUrl_def)

text \<open>Escaping in \<^verbatim>\<open>JSON.stringify\<close>: a line feed, a quote and a control character.\<close>

lemma test_JSON_stringify_escapes:
  "JSON_stringify (JStr (''a'' @ newline @ [CHR 0x22, CHR 0x01]))
     = [CHR 0x22, CHR ''a'', CHR 0x5C, CHR ''n'', CHR 0x5C, CHR 0x22,
        CHR 0x5C, CHR ''u'', CHR ''0'', CHR ''0'', CHR ''0'', CHR ''1'', CHR 0x22]"
  by (simp add: quote_def escape_char_def hex_digit_def)

end
